theory Spec2Isabelle
  imports Complex_Main "HOL-Library.Log_Nat"
begin

section \<open>JavaScript numbers\<close>

text \<open>
  Every number of \<^verbatim>\<open>script.js\<close> is an IEEE 754 binary64 value. A value is
  \<open>NaN\<close>, one of the two infinities, or a finite number, carried as the real it denotes.
  Each arithmetic operation computes the exact real result and rounds it to the nearest
  binary64 value, ties to even (\<open>fl\<close>): 53 significant bits, smallest quantum
  \<open>2 powi -1074\<close>, overflow to an infinity from \<open>2 powi 1024\<close> on. The sign of zero
  is not represented: dividing a non-zero number by zero gives the infinity that division
  by \<open>+0\<close> gives.
\<close>

datatype jsnum = NaN | PInf | NInf | Fin real

text \<open>The binade of a non-zero real: \<open>2 powi expo r \<le> \<bar>r\<bar> < 2 powi (expo r + 1)\<close>.\<close>

definition expo :: "real \<Rightarrow> int" where
  "expo r = (if 1 \<le> \<bar>r\<bar> then int (floorlog 2 (nat \<lfloor>\<bar>r\<bar>\<rfloor>)) - 1
             else - int (floorlog 2 (nat (\<lceil>1 / \<bar>r\<bar>\<rceil> - 1))))"

definition round_even :: "real \<Rightarrow> int" where
  "round_even x = (let f = \<lfloor>x\<rfloor>; d = x - of_int f in
     if d < 1/2 then f else if 1/2 < d then f + 1 else if even f then f else f + 1)"

definition fl :: "real \<Rightarrow> jsnum" where
  "fl r = (if r = 0 then Fin 0 else
     let e = max (expo r) (-1022); q = 2 powi (e - 52);
         y = q * of_int (round_even (r / q)) in
     if 2 powi 1024 \<le> \<bar>y\<bar> then (if 0 < r then PInf else NInf) else Fin y)"

fun jneg :: "jsnum \<Rightarrow> jsnum" where
  "jneg NaN = NaN"
| "jneg PInf = NInf"
| "jneg NInf = PInf"
| "jneg (Fin a) = Fin (- a)"

fun jadd :: "jsnum \<Rightarrow> jsnum \<Rightarrow> jsnum" where
  "jadd (Fin a) (Fin b) = fl (a + b)"
| "jadd NaN _ = NaN"
| "jadd _ NaN = NaN"
| "jadd PInf NInf = NaN"
| "jadd NInf PInf = NaN"
| "jadd PInf _ = PInf"
| "jadd NInf _ = NInf"
| "jadd _ PInf = PInf"
| "jadd _ NInf = NInf"

definition jsub :: "jsnum \<Rightarrow> jsnum \<Rightarrow> jsnum" where
  "jsub a b = jadd a (jneg b)"

text \<open>The sign of a non-NaN value: 1, 0 or -1.\<close>

fun jsgn :: "jsnum \<Rightarrow> int" where
  "jsgn NaN = 0"
| "jsgn PInf = 1"
| "jsgn NInf = - 1"
| "jsgn (Fin a) = (if 0 < a then 1 else if a < 0 then - 1 else 0)"

definition signed_inf :: "int \<Rightarrow> jsnum" where
  "signed_inf s = (if 0 < s then PInf else if s < 0 then NInf else NaN)"

fun jmul :: "jsnum \<Rightarrow> jsnum \<Rightarrow> jsnum" where
  "jmul (Fin a) (Fin b) = fl (a * b)"
| "jmul NaN _ = NaN"
| "jmul _ NaN = NaN"
| "jmul a b = signed_inf (jsgn a * jsgn b)"

fun jdiv :: "jsnum \<Rightarrow> jsnum \<Rightarrow> jsnum" where
  "jdiv (Fin a) (Fin b) =
     (if b = 0 then signed_inf (jsgn (Fin a)) else fl (a / b))"
| "jdiv NaN _ = NaN"
| "jdiv _ NaN = NaN"
| "jdiv (Fin a) _ = Fin 0"
| "jdiv a (Fin b) = signed_inf (jsgn a * (if b < 0 then - 1 else 1))"
| "jdiv _ _ = NaN"

text \<open>\<^verbatim>\<open>Math.sqrt\<close>: the correctly rounded square root.\<close>

fun jsqrt :: "jsnum \<Rightarrow> jsnum" where
  "jsqrt (Fin a) = (if a < 0 then NaN else fl (sqrt a))"
| "jsqrt PInf = PInf"
| "jsqrt _ = NaN"

text \<open>\<^verbatim>\<open>Math.pow(v, 2)\<close>: the correctly rounded square.\<close>

definition jpow2 :: "jsnum \<Rightarrow> jsnum" where
  "jpow2 v = jmul v v"

fun jabs :: "jsnum \<Rightarrow> jsnum" where
  "jabs NaN = NaN"
| "jabs (Fin a) = Fin \<bar>a\<bar>"
| "jabs _ = PInf"

fun jfloor :: "jsnum \<Rightarrow> jsnum" where
  "jfloor (Fin a) = Fin (of_int \<lfloor>a\<rfloor>)"
| "jfloor v = v"

text \<open>Comparisons: every comparison with \<open>NaN\<close> is false.\<close>

fun jlt :: "jsnum \<Rightarrow> jsnum \<Rightarrow> bool" where
  "jlt (Fin a) (Fin b) = (a < b)"
| "jlt NaN _ = False"
| "jlt _ NaN = False"
| "jlt _ NInf = False"
| "jlt PInf _ = False"
| "jlt _ _ = True"

fun jle :: "jsnum \<Rightarrow> jsnum \<Rightarrow> bool" where
  "jle (Fin a) (Fin b) = (a \<le> b)"
| "jle NaN _ = False"
| "jle _ NaN = False"
| "jle NInf _ = True"
| "jle _ PInf = True"
| "jle _ _ = False"

abbreviation jgt :: "jsnum \<Rightarrow> jsnum \<Rightarrow> bool" where
  "jgt a b \<equiv> jlt b a"

abbreviation jge :: "jsnum \<Rightarrow> jsnum \<Rightarrow> bool" where
  "jge a b \<equiv> jle b a"

text \<open>\<^verbatim>\<open>Math.max\<close> and \<^verbatim>\<open>Math.min\<close> of two values: \<open>NaN\<close> if either is.\<close>

definition jmax :: "jsnum \<Rightarrow> jsnum \<Rightarrow> jsnum" where
  "jmax a b = (if a = NaN \<or> b = NaN then NaN else if jlt a b then b else a)"

definition jmin :: "jsnum \<Rightarrow> jsnum \<Rightarrow> jsnum" where
  "jmin a b = (if a = NaN \<or> b = NaN then NaN else if jlt b a then b else a)"

text \<open>\<^verbatim>\<open>Math.min(...xs)\<close>: \<open>+Infinity\<close> for no argument.\<close>

definition jmin_list :: "jsnum list \<Rightarrow> jsnum" where
  "jmin_list xs = foldl jmin PInf xs"

text \<open>
  \<^verbatim>\<open>Number(x.toFixed(d))\<close>: the decimal with \<open>d\<close> fraction digits nearest to \<open>\<bar>x\<bar>\<close>
  (the larger one on a tie), with the sign of \<open>x\<close>, read back as a number.
\<close>

fun toFixedNumber :: "nat \<Rightarrow> jsnum \<Rightarrow> jsnum" where
  "toFixedNumber d (Fin a) =
     fl ((if a < 0 then - 1 else 1) * of_int \<lfloor>\<bar>a\<bar> * 10 ^ d + 1/2\<rfloor> / 10 ^ d)"
| "toFixedNumber d v = v"

section \<open>The backtest engine\<close>

text \<open>
  A bar as the data fetcher returns it, and the bars of the later stages: each stage of
  \<^verbatim>\<open>script.js\<close> spreads the previous object and adds fields. \<open>None\<close> is
  \<^verbatim>\<open>null\<close>.
\<close>

record bar =
  time :: jsnum
  close :: jsnum

record zbar = bar +
  mean :: "jsnum option"
  std :: "jsnum option"
  zscore :: "jsnum option"

record sigbar = zbar +
  signal :: "jsnum option"

record pbar = sigbar +
  pos :: int

record sbar = pbar +
  priceChange :: jsnum
  posPrev :: int
  trades :: jsnum
  pnl :: jsnum
  cumulativePnl :: jsnum
  drawdown :: jsnum

datatype logic = Trend | Fast | OtherLogic

datatype side = Long | Short | Both | OtherSide

text \<open>\<^verbatim>\<open>Array.prototype.slice(start, stop)\<close>, negative indices counting from the end.\<close>

definition slice :: "'a list \<Rightarrow> int \<Rightarrow> int \<Rightarrow> 'a list" where
  "slice xs start stop =
     (let len = int (length xs);
          k = (if start < 0 then max (len + start) 0 else min start len);
          final = (if stop < 0 then max (len + stop) 0 else min stop len)
      in take (nat (final - k)) (drop (nat k) xs))"

text \<open>\<^verbatim>\<open>BacktestEngine.calculateZScore\<close>: the callback of \<^verbatim>\<open>data.map\<close> at one index,
  then the map over all indices.\<close>

definition zscore_at :: "bar list \<Rightarrow> int \<Rightarrow> nat \<Rightarrow> zbar" where
  "zscore_at data window index =
     (let item = data ! index in
      if int index < window - 1
      then \<lparr>time = time item, close = close item, mean = None, std = None, zscore = None\<rparr>
      else
        let windowData = map close (slice data (int index - window + 1) (int index + 1));
            m = jdiv (foldl jadd (Fin 0) windowData) (Fin (of_int window));
            variance = jdiv (foldl (\<lambda>sum val. jadd sum (jpow2 (jsub val m))) (Fin 0) windowData)
                            (Fin (of_int window));
            s = jsqrt variance;
            z = (if s \<noteq> Fin 0 then jdiv (jsub (close item) m) s else Fin 0)
        in \<lparr>time = time item, close = close item, mean = Some m, std = Some s, zscore = Some z\<rparr>)"

definition calculateZScore :: "bar list \<Rightarrow> int \<Rightarrow> zbar list" where
  "calculateZScore data window = map (zscore_at data window) [0..<length data]"

text \<open>
  \<^verbatim>\<open>BacktestEngine.generateSignals\<close>, first pass: the entry of the \<^verbatim>\<open>position\<close>
  array for one bar. \<open>None\<close> is the \<^verbatim>\<open>NaN\<close> the array is filled with. Where the source
  has two \<^verbatim>\<open>if\<close> statements in a row, the second assignment overwrites the first.
\<close>

definition rawPosition ::
  "logic \<Rightarrow> side \<Rightarrow> jsnum \<Rightarrow> jsnum \<Rightarrow> jsnum option \<Rightarrow> int option" where
  "rawPosition logicType sd entryThreshold exitThreshold sg =
     (case sg of
        None \<Rightarrow> None
      | Some z \<Rightarrow>
          if z = NaN then None
          else if logicType = Trend then
            (if sd = Long then
               (let p = (if jge z entryThreshold then Some 1 else None)
                in if jle z exitThreshold then Some 0 else p)
             else if sd = Short then
               (let p = (if jge z entryThreshold then Some 0 else None)
                in if jle z exitThreshold then Some (- 1) else p)
             else if sd = Both then
               (let p = (if jge z entryThreshold then Some 1 else None)
                in if jle z exitThreshold then Some (- 1) else p)
             else None)
          else if logicType = Fast then
            (if sd = Long then Some (if jge z entryThreshold then 1 else 0)
             else if sd = Short then Some (if jle z exitThreshold then - 1 else 0)
             else if sd = Both then
               (let p = (if jge z entryThreshold then Some 1 else None)
                in if jle z exitThreshold then Some (- 1) else p)
             else None)
          else None)"

text \<open>Second pass: the forward fill, \<open>lastPosition\<close> starting at 0.\<close>

fun ffill :: "int \<Rightarrow> int option list \<Rightarrow> int list" where
  "ffill lastPosition [] = []"
| "ffill lastPosition (None # ps) = lastPosition # ffill lastPosition ps"
| "ffill lastPosition (Some p # ps) = p # ffill p ps"

definition positions ::
  "sigbar list \<Rightarrow> jsnum \<Rightarrow> jsnum \<Rightarrow> logic \<Rightarrow> side \<Rightarrow> int list" where
  "positions data entryThreshold exitThreshold logicType sd =
     ffill 0 (map (\<lambda>item. rawPosition logicType sd entryThreshold exitThreshold (zscore item))
                  data)"

definition with_pos :: "sigbar \<Rightarrow> int \<Rightarrow> pbar" where
  "with_pos item p =
     \<lparr>time = time item, close = close item, mean = mean item, std = std item,
      zscore = zscore item, signal = signal item, pos = p\<rparr>"

definition generateSignals ::
  "sigbar list \<Rightarrow> jsnum \<Rightarrow> jsnum \<Rightarrow> logic \<Rightarrow> side \<Rightarrow> pbar list" where
  "generateSignals data entryThreshold exitThreshold logicType sd =
     map (\<lambda>index. with_pos (data ! index)
                     (positions data entryThreshold exitThreshold logicType sd ! index))
         [0..<length data]"

definition with_signal :: "zbar \<Rightarrow> sigbar" where
  "with_signal item =
     \<lparr>time = time item, close = close item, mean = mean item, std = std item,
      zscore = zscore item, signal = zscore item\<rparr>"

text \<open>The running sum and the running drawdown of \<^verbatim>\<open>backtest\<close>: the two closures
  over \<^verbatim>\<open>cumulativePnl\<close> and \<^verbatim>\<open>maxCumulativePnl\<close>.\<close>

fun running_sum :: "jsnum \<Rightarrow> jsnum list \<Rightarrow> jsnum list" where
  "running_sum acc [] = []"
| "running_sum acc (x # xs) = jadd acc x # running_sum (jadd acc x) xs"

fun running_drawdown :: "jsnum \<Rightarrow> jsnum list \<Rightarrow> jsnum list" where
  "running_drawdown mx [] = []"
| "running_drawdown mx (c # cs) = jsub c (jmax mx c) # running_drawdown (jmax mx c) cs"

definition priceChange_at :: "pbar list \<Rightarrow> nat \<Rightarrow> jsnum" where
  "priceChange_at df index =
     (if index = 0 then Fin 0
      else jdiv (jsub (close (df ! index)) (close (df ! (index - 1))))
                (close (df ! (index - 1))))"

definition posPrev_at :: "pbar list \<Rightarrow> nat \<Rightarrow> int" where
  "posPrev_at df index = (if index = 0 then 0 else pos (df ! (index - 1)))"

definition trades_at :: "pbar list \<Rightarrow> nat \<Rightarrow> jsnum" where
  "trades_at df index =
     jabs (jsub (Fin (of_int (posPrev_at df index))) (Fin (of_int (pos (df ! index)))))"

definition pnl_at :: "pbar list \<Rightarrow> nat \<Rightarrow> jsnum" where
  "pnl_at df index = jmul (Fin (of_int (posPrev_at df index))) (priceChange_at df index)"

definition backtest ::
  "bar list \<Rightarrow> int \<Rightarrow> jsnum \<Rightarrow> jsnum \<Rightarrow> logic \<Rightarrow> side \<Rightarrow> sbar list" where
  "backtest data window entryThreshold exitThreshold logicType sd =
     (let df = generateSignals (map with_signal (calculateZScore data window))
                 entryThreshold exitThreshold logicType sd;
          idx = [0..<length df];
          cum = running_sum (Fin 0) (map (pnl_at df) idx);
          dd = running_drawdown (Fin 0) cum
      in map (\<lambda>index.
                let item = df ! index in
                \<lparr>time = time item, close = close item, mean = mean item, std = std item,
                 zscore = zscore item, signal = signal item, pos = pos item,
                 priceChange = priceChange_at df index, posPrev = posPrev_at df index,
                 trades = trades_at df index, pnl = pnl_at df index,
                 cumulativePnl = cum ! index, drawdown = dd ! index\<rparr>) idx)"

section \<open>Dates\<close>

text \<open>
  \<^verbatim>\<open>new Date(t)\<close> keeps the time value \<open>t\<close> truncated to an integer, or is invalid
  when \<open>t\<close> is not finite or beyond \<open>8.64e15\<close> milliseconds. \<^verbatim>\<open>toISOString\<close>
  throws a \<^verbatim>\<open>RangeError\<close> on an invalid date; otherwise it renders the UTC calendar date
  of the proleptic Gregorian calendar, years outside 0..9999 with a sign and six digits.
\<close>

definition timeClip :: "jsnum \<Rightarrow> int option" where
  "timeClip t =
     (case t of
        Fin a \<Rightarrow> if 8640000000000000 < \<bar>a\<bar> then None
                 else Some (if a < 0 then \<lceil>a\<rceil> else \<lfloor>a\<rfloor>)
      | _ \<Rightarrow> None)"

text \<open>The civil date of a day number counted from 0000-03-01: the year of the era of 400
  years, the day of the year starting in March, the month and the day.\<close>

definition yoe_of :: "int \<Rightarrow> int" where
  "yoe_of doe = (doe - doe div 1460 + doe div 36524 - doe div 146096) div 365"

definition doy_of :: "int \<Rightarrow> int" where
  "doy_of doe = doe - (365 * yoe_of doe + yoe_of doe div 4 - yoe_of doe div 100)"

definition mp_of :: "int \<Rightarrow> int" where
  "mp_of doy = (5 * doy + 2) div 153"

definition civil_month :: "int \<Rightarrow> int" where
  "civil_month z =
     (if mp_of (doy_of (z mod 146097)) < 10 then mp_of (doy_of (z mod 146097)) + 3
      else mp_of (doy_of (z mod 146097)) - 9)"

definition civil_day :: "int \<Rightarrow> int" where
  "civil_day z =
     doy_of (z mod 146097) - (153 * mp_of (doy_of (z mod 146097)) + 2) div 5 + 1"

definition civil_year :: "int \<Rightarrow> int" where
  "civil_year z =
     yoe_of (z mod 146097) + (z div 146097) * 400 + (if civil_month z \<le> 2 then 1 else 0)"

definition digit :: "nat \<Rightarrow> char" where
  "digit n = ''0123456789'' ! (n mod 10)"

definition pad2 :: "nat \<Rightarrow> string" where
  "pad2 n = [digit (n div 10), digit n]"

definition pad3 :: "nat \<Rightarrow> string" where
  "pad3 n = digit (n div 100) # pad2 n"

definition pad4 :: "nat \<Rightarrow> string" where
  "pad4 n = digit (n div 1000) # pad3 n"

definition pad6 :: "nat \<Rightarrow> string" where
  "pad6 n = digit (n div 100000) # digit (n div 10000) # pad4 n"

definition iso_year :: "int \<Rightarrow> string" where
  "iso_year y =
     (if 0 \<le> y \<and> y \<le> 9999 then pad4 (nat y)
      else (if y < 0 then ''-'' else ''+'') @ pad6 (nat \<bar>y\<bar>))"

definition iso_date :: "int \<Rightarrow> string" where
  "iso_date z =
     iso_year (civil_year z) @ ''-'' @ pad2 (nat (civil_month z)) @ ''-''
     @ pad2 (nat (civil_day z))"

definition iso_time :: "nat \<Rightarrow> string" where
  "iso_time ms =
     pad2 (ms div 3600000) @ '':'' @ pad2 (ms div 60000 mod 60) @ '':''
     @ pad2 (ms div 1000 mod 60) @ ''.'' @ pad3 (ms mod 1000)"

definition toISOString :: "int \<Rightarrow> string" where
  "toISOString tv =
     iso_date (tv div 86400000 + 719468) @ ''T'' @ iso_time (nat (tv mod 86400000)) @ ''Z''"

text \<open>\<^verbatim>\<open>s.replace(a, b)\<close> for one-character strings: the first occurrence only.\<close>

fun replace_first :: "char \<Rightarrow> char \<Rightarrow> string \<Rightarrow> string" where
  "replace_first a b [] = []"
| "replace_first a b (c # cs) = (if c = a then b # cs else c # replace_first a b cs)"

definition date_label :: "int \<Rightarrow> string" where
  "date_label tv = take 19 (replace_first CHR ''T'' CHR '' '' (toISOString tv))"

section \<open>The metrics calculator\<close>

record metrics =
  Sharpe_Ratio :: jsnum
  Calmar_Ratio :: jsnum
  Max_Drawdown :: jsnum
  Annualized_Return :: jsnum
  Total_Return :: jsnum
  Number_of_Trades :: jsnum
  Trade_Frequency :: jsnum
  Win_Rate :: jsnum
  Start_Date :: string
  End_Date :: string
  Period_days :: jsnum

datatype js_error = RangeError | FetchError

text \<open>The constructor's table, with the products and quotients of the literals folded:
  all of them are exact.\<close>

definition annualizer_of :: "string \<Rightarrow> jsnum" where
  "annualizer_of interval =
     (if interval = ''1m'' then Fin 525600
      else if interval = ''5m'' then Fin 105120
      else if interval = ''10m'' then Fin 52560
      else if interval = ''15m'' then Fin 35040
      else if interval = ''30m'' then Fin 17520
      else if interval = ''60m'' then Fin 8760
      else if interval = ''1h'' then Fin 8760
      else if interval = ''4h'' then Fin 2190
      else if interval = ''1d'' then Fin 365
      else Fin 8760)"

text \<open>\<^verbatim>\<open>calculateWinRate\<close>: the indices that close a trade, then for each the start of
  the run of equal positions before it (the \<^verbatim>\<open>while\<close> loop, counting \<open>startIdx + 1\<close>).\<close>

fun tradeEnds_from :: "int \<Rightarrow> nat \<Rightarrow> sbar list \<Rightarrow> nat list" where
  "tradeEnds_from prevPos i [] = []"
| "tradeEnds_from prevPos i (item # rest) =
     (if prevPos \<noteq> 0 \<and> pos item = 0 then [i] else []) @ tradeEnds_from (pos item) (Suc i) rest"

fun runStart :: "sbar list \<Rightarrow> int \<Rightarrow> nat \<Rightarrow> nat" where
  "runStart df endPos 0 = 0"
| "runStart df endPos (Suc j) = (if pos (df ! j) = endPos then runStart df endPos j else Suc j)"

definition winning :: "sbar list \<Rightarrow> nat \<Rightarrow> bool" where
  "winning df endIdx =
     (let endPos = pos (df ! (endIdx - 1));
          startIdx = runStart df endPos endIdx
      in startIdx < endIdx \<and>
         jgt (jsub (cumulativePnl (df ! endIdx)) (cumulativePnl (df ! startIdx))) (Fin 0))"

definition calculateWinRate :: "sbar list \<Rightarrow> jsnum" where
  "calculateWinRate df =
     (let tradeEnds = tradeEnds_from 0 0 df in
      if length tradeEnds = 0 then Fin 0
      else
        let winningTrades = length (filter (winning df) tradeEnds)
        in jmul (jdiv (Fin (of_nat winningTrades)) (Fin (of_nat (length tradeEnds)))) (Fin 100))"

definition emptyMetrics :: metrics where
  "emptyMetrics =
     \<lparr>Sharpe_Ratio = NaN, Calmar_Ratio = NaN, Max_Drawdown = Fin 0, Annualized_Return = Fin 0,
      Total_Return = Fin 0, Number_of_Trades = Fin 0, Trade_Frequency = Fin 0,
      Win_Rate = Fin 0, Start_Date = ''N/A'', End_Date = ''N/A'', Period_days = Fin 0\<rparr>"

definition date_value :: "int option \<Rightarrow> jsnum" where
  "date_value d = (case d of None \<Rightarrow> NaN | Some tv \<Rightarrow> Fin (of_int tv))"

text \<open>\<^verbatim>\<open>calculateAllMetrics\<close>, the annualizer of the calculator as first argument. The
  result is an error when \<^verbatim>\<open>toISOString\<close> throws.\<close>

definition calculateAllMetrics :: "jsnum \<Rightarrow> sbar list \<Rightarrow> int \<Rightarrow> js_error + metrics" where
  "calculateAllMetrics annualizer df window =
     (let validDf = filter (\<lambda>item. pnl item \<noteq> NaN) df in
      if length validDf = 0 then Inr emptyMetrics
      else
        let pnls = map pnl validDf;
            cumulative = map cumulativePnl validDf;
            drawdowns = map drawdown validDf;
            trds = foldl (\<lambda>sum item. jadd sum (trades item)) (Fin 0) validDf;
            n = Fin (of_nat (length pnls));
            meanPnl = jdiv (foldl jadd (Fin 0) pnls) n;
            variance = jdiv (foldl (\<lambda>sum val. jadd sum (jpow2 (jsub val meanPnl))) (Fin 0) pnls) n;
            stdPnl = jsqrt variance;
            sharpeRatio = (if 1 < length pnls \<and> stdPnl \<noteq> Fin 0
                           then jmul (jdiv meanPnl stdPnl) (jsqrt annualizer) else NaN);
            maxDrawdown = jmin_list drawdowns;
            annualizedReturn = (if 0 < length pnls then jmul meanPnl annualizer else Fin 0);
            calmarRatio = (if maxDrawdown \<noteq> Fin 0
                           then jdiv annualizedReturn (jabs maxDrawdown) else NaN);
            totalReturn = cumulative ! (length cumulative - 1);
            numTrades = jfloor trds;
            effectivePeriods = int (length validDf) - window;
            tradeFrequency = (if 0 < effectivePeriods
                              then jmul (jdiv numTrades (Fin (of_int effectivePeriods))) (Fin 100)
                              else Fin 0);
            winRate = calculateWinRate validDf;
            startDate = timeClip (time (validDf ! 0));
            endDate = timeClip (time (validDf ! (length validDf - 1)));
            periodDays = jfloor (jdiv (jsub (date_value endDate) (date_value startDate))
                                      (Fin 86400000))
        in case startDate of
             None \<Rightarrow> Inl RangeError
           | Some st \<Rightarrow>
               (case endDate of
                  None \<Rightarrow> Inl RangeError
                | Some en \<Rightarrow>
                    Inr \<lparr>Sharpe_Ratio = (if sharpeRatio = NaN then NaN
                                          else toFixedNumber 4 sharpeRatio),
                         Calmar_Ratio = (if calmarRatio = NaN then NaN
                                          else toFixedNumber 4 calmarRatio),
                         Max_Drawdown = toFixedNumber 4 maxDrawdown,
                         Annualized_Return = toFixedNumber 4 annualizedReturn,
                         Total_Return = toFixedNumber 4 totalReturn,
                         Number_of_Trades = numTrades,
                         Trade_Frequency = toFixedNumber 4 tradeFrequency,
                         Win_Rate = toFixedNumber 2 winRate,
                         Start_Date = date_label st,
                         End_Date = date_label en,
                         Period_days = periodDays\<rparr>))"

section \<open>The strategy evaluator\<close>

record evaluator =
  minSharpeRatio :: jsnum
  minCalmarRatio :: jsnum
  maxDrawdownThreshold :: jsnum
  minTrades :: jsnum

text \<open>The constructor's defaults: 1.0, 1.0, -0.3 and 10.\<close>

definition default_evaluator :: evaluator where
  "default_evaluator =
     \<lparr>minSharpeRatio = Fin 1, minCalmarRatio = Fin 1,
      maxDrawdownThreshold = fl (- 3 / 10), minTrades = Fin 10\<rparr>"

text \<open>
  A reason line: the mark (\<open>passed\<close>), the metric's name, the value as the line shows it
  (\<^verbatim>\<open>toFixed\<close> with its digits, the text \<^verbatim>\<open>N/A\<close>, or the number as it is) and the
  threshold. The rendering of numbers as text is not modelled.
\<close>

datatype shown = Fixed nat jsnum | NA | Plain jsnum

datatype reason = Reason (passed: bool) (metric: string) (shown: shown) (bound: jsnum)

text \<open>One check of \<^verbatim>\<open>evaluate\<close>: \<^verbatim>\<open>totalChecks++\<close>, then either
  \<^verbatim>\<open>passedChecks++\<close> and the passing line, or the failing line.\<close>

definition check_step ::
  "bool \<Rightarrow> reason \<Rightarrow> reason \<Rightarrow> nat \<times> nat \<times> reason list \<Rightarrow> nat \<times> nat \<times> reason list" where
  "check_step ok pass_line fail_line st =
     (case st of (passedChecks, totalChecks, reasons) \<Rightarrow>
        if ok then (passedChecks + 1, totalChecks + 1, reasons @ [pass_line])
        else (passedChecks, totalChecks + 1, reasons @ [fail_line]))"

definition evaluate :: "evaluator \<Rightarrow> metrics \<Rightarrow> bool \<times> reason list" where
  "evaluate ev m =
     (let sharpe = Sharpe_Ratio m;
          st1 = check_step (sharpe \<noteq> NaN \<and> jge sharpe (minSharpeRatio ev))
                  (Reason True ''Sharpe Ratio'' (Fixed 2 sharpe) (minSharpeRatio ev))
                  (Reason False ''Sharpe Ratio'' (if sharpe = NaN then NA else Fixed 2 sharpe)
                     (minSharpeRatio ev))
                  (0, 0, []);
          calmar = Calmar_Ratio m;
          st2 = check_step (calmar \<noteq> NaN \<and> jge calmar (minCalmarRatio ev))
                  (Reason True ''Calmar Ratio'' (Fixed 2 calmar) (minCalmarRatio ev))
                  (Reason False ''Calmar Ratio'' (if calmar = NaN then NA else Fixed 2 calmar)
                     (minCalmarRatio ev))
                  st1;
          mdd = Max_Drawdown m;
          st3 = check_step (jge mdd (maxDrawdownThreshold ev))
                  (Reason True ''Max Drawdown'' (Fixed 4 mdd) (maxDrawdownThreshold ev))
                  (Reason False ''Max Drawdown'' (Fixed 4 mdd) (maxDrawdownThreshold ev))
                  st2;
          numTrades = Number_of_Trades m;
          st4 = check_step (jge numTrades (minTrades ev))
                  (Reason True ''Number of Trades'' (Plain numTrades) (minTrades ev))
                  (Reason False ''Number of Trades'' (Plain numTrades) (minTrades ev))
                  st3
      in case st4 of (passedChecks, totalChecks, reasons) \<Rightarrow>
           (passedChecks = totalChecks, reasons))"

section \<open>The live monitor\<close>

datatype livepos = PosNone | PosLong | PosShort

datatype signal_type = Entry_long | Entry_short | Exit_long | Exit_short

text \<open>
  The decision of \<^verbatim>\<open>checkTradingSignal\<close> for one hour: from the z-score and
  \<^verbatim>\<open>currentPosition\<close> to \<^verbatim>\<open>nextPosition\<close> and \<^verbatim>\<open>signalType\<close>. The fast rules
  are the source's five \<^verbatim>\<open>if\<close> statements in order, each reading what the ones before
  assigned.
\<close>

definition fast_rules ::
  "side \<Rightarrow> jsnum \<Rightarrow> jsnum \<Rightarrow> jsnum \<Rightarrow> livepos \<Rightarrow> livepos \<times> signal_type option" where
  "fast_rules sd entryThreshold exitThreshold z cur =
     (let st0 = (cur, None);
          st1 = (if (sd = Short \<or> sd = Both) \<and> cur = PosShort \<and> jgt z exitThreshold
                 then (PosNone, Some Exit_short) else st0);
          st2 = (if (sd = Long \<or> sd = Both) \<and> cur = PosLong \<and> jlt z entryThreshold
                 then (PosNone, (case snd st1 of None \<Rightarrow> Some Exit_long | Some t \<Rightarrow> Some t))
                 else st1);
          st3 = (if (sd = Long \<or> sd = Both) \<and> fst st2 = PosNone \<and> jgt z entryThreshold
                 then (PosLong, Some Entry_long) else st2);
          st4 = (if (sd = Short \<or> sd = Both) \<and> fst st3 = PosNone \<and> jlt z exitThreshold
                 then (PosShort, Some Entry_short) else st3)
      in if snd st4 = None \<and> fst st4 = PosNone then (cur, snd st4) else st4)"

definition nextPosition_of ::
  "logic \<Rightarrow> side \<Rightarrow> jsnum \<Rightarrow> jsnum \<Rightarrow> jsnum \<Rightarrow> livepos \<Rightarrow> livepos \<times> signal_type option" where
  "nextPosition_of logicType sd entryThreshold exitThreshold z cur =
     (if logicType = Trend then
        (if sd = Long then (if jgt z entryThreshold then PosLong else PosNone, None)
         else if sd = Short then (if jlt z exitThreshold then PosShort else PosNone, None)
         else (if jgt z entryThreshold then PosLong
               else if jlt z exitThreshold then PosShort
               else cur, None))
      else if logicType = Fast then fast_rules sd entryThreshold exitThreshold z cur
      else (cur, None))"

text \<open>The signal when no fast rule named one and the position changed.\<close>

definition signal_of :: "livepos \<Rightarrow> livepos \<times> signal_type option \<Rightarrow> signal_type option" where
  "signal_of cur d =
     (case d of (next, sg) \<Rightarrow>
        if sg = None \<and> next \<noteq> cur then
          (if cur = PosLong \<and> next = PosNone then Some Exit_long
           else if cur = PosShort \<and> next = PosNone then Some Exit_short
           else if next = PosLong then Some Entry_long
           else if next = PosShort then Some Entry_short
           else sg)
        else sg)"

definition actionLabel :: "livepos \<Rightarrow> livepos \<Rightarrow> string" where
  "actionLabel cur next =
     (if next = PosLong \<and> cur \<noteq> PosLong then ''Enter Long''
      else if next = PosShort \<and> cur \<noteq> PosShort then ''Enter Short''
      else if cur = PosLong \<and> next = PosNone then ''Close Long''
      else if cur = PosShort \<and> next = PosNone then ''Close Short''
      else if next = PosLong then ''Hold Long''
      else if next = PosShort then ''Hold Short''
      else ''No position (no new signal)'')"

text \<open>
  The module-level state of the monitor, and what one call of \<^verbatim>\<open>checkTradingSignal\<close>
  reads from outside: the form, the credentials, the start of the last completed hour
  (\<^verbatim>\<open>getLastHourlyCandleTime\<close>), what \<^verbatim>\<open>fetchRecentData\<close> returns (\<open>None\<close> when it
  throws) and what \<^verbatim>\<open>sendHourlyUpdate\<close> returns. The window is the integer that
  \<^verbatim>\<open>parseInt\<close> read.
\<close>

record live_state =
  lastHourlyTimestamp :: "int option"
  currentPosition :: livepos

record tick_input =
  form_logic :: logic
  form_side :: side
  form_window :: int
  form_entry :: jsnum
  form_exit :: jsnum
  token :: string
  chatId :: string
  currentHourlyTimestamp :: int
  recentData :: "bar list option"
  hourlySent :: bool

text \<open>What a call does to the outside, in order: the fetch, the updates of the monitor
  status, and the hourly message with the position it reports.\<close>

datatype event = Fetch | Status string | Send livepos jsnum jsnum

datatype outcome =
    NoCredentials | AlreadyProcessed | FetchThrew | NotEnoughData | ZScoreFailed
  | Processed "signal_type option" string

record tick_result =
  state_after :: live_state
  outcome_of :: outcome
  events :: "event list"

definition checkTradingSignal :: "live_state \<Rightarrow> tick_input \<Rightarrow> tick_result" where
  "checkTradingSignal s inp =
     (if token inp = [] \<or> chatId inp = []
      then \<lparr>state_after = s, outcome_of = NoCredentials, events = []\<rparr>
      else
        let hasNewHourlyCandle =
              (case lastHourlyTimestamp s of
                 None \<Rightarrow> True
               | Some l \<Rightarrow> l < currentHourlyTimestamp inp)
        in if \<not> hasNewHourlyCandle \<and> lastHourlyTimestamp s \<noteq> None
           then \<lparr>state_after = s, outcome_of = AlreadyProcessed, events = []\<rparr>
           else
             (case recentData inp of
                None \<Rightarrow>
                  \<lparr>state_after = s, outcome_of = FetchThrew,
                   events = [Fetch, Status ''Error: Failed to fetch any data'']\<rparr>
              | Some data \<Rightarrow>
                  if int (length data) < form_window inp
                  then \<lparr>state_after = s, outcome_of = NotEnoughData,
                        events = [Fetch, Status ''Error: Not enough data'']\<rparr>
                  else
                    let zscoreData = calculateZScore data (form_window inp) in
                    if zscoreData = [] \<or> zscore (last zscoreData) = None
                       \<or> zscore (last zscoreData) = Some NaN
                    then \<lparr>state_after = s, outcome_of = ZScoreFailed,
                          events = [Fetch, Status ''Error: Z-Score calculation failed'']\<rparr>
                    else
                      let lastData = last zscoreData;
                          currentPrice = close lastData;
                          currentZScore = the (zscore lastData);
                          s1 = s\<lparr>lastHourlyTimestamp := Some (currentHourlyTimestamp inp)\<rparr>;
                          d = nextPosition_of (form_logic inp) (form_side inp) (form_entry inp)
                                (form_exit inp) currentZScore (currentPosition s1);
                          signalType = signal_of (currentPosition s1) d;
                          label = actionLabel (currentPosition s1) (fst d);
                          s2 = s1\<lparr>currentPosition := fst d\<rparr>
                      in \<lparr>state_after = s2, outcome_of = Processed signalType label,
                          events = [Fetch, Status ''Monitoring'',
                                    Send (currentPosition s2) currentZScore currentPrice]
                            @ (if hourlySent inp then []
                               else [Status ''Warning: failed to send Telegram message (check token/chat ID).''])\<rparr>))"

section \<open>Notions the properties are stated with\<close>

text \<open>The batch position that a live position stands for.\<close>

definition pos_code :: "livepos \<Rightarrow> int" where
  "pos_code p = (case p of PosNone \<Rightarrow> 0 | PosLong \<Rightarrow> 1 | PosShort \<Rightarrow> - 1)"

text \<open>The running peak at bar \<open>i\<close>: the value of \<^verbatim>\<open>maxCumulativePnl\<close> after the
  closure of \<^verbatim>\<open>backtest\<close> has seen the bars up to \<open>i\<close>.\<close>

definition running_peak :: "sbar list \<Rightarrow> nat \<Rightarrow> jsnum" where
  "running_peak out i = foldl jmax (Fin 0) (map cumulativePnl (take (Suc i) out))"

definition is_fin :: "jsnum \<Rightarrow> bool" where
  "is_fin v = (case v of Fin _ \<Rightarrow> True | _ \<Rightarrow> False)"

text \<open>A price whose relative change to any other such price is a finite number.\<close>

definition price_in_range :: "jsnum \<Rightarrow> bool" where
  "price_in_range v =
     (case v of Fin c \<Rightarrow> 2 powi (- 500) \<le> \<bar>c\<bar> \<and> \<bar>c\<bar> \<le> 2 powi 500 | _ \<Rightarrow> False)"

section \<open>Concrete inputs\<close>

text \<open>Scored bars with given z-scores, for \<^verbatim>\<open>generateSignals\<close> alone.\<close>

definition bars_of_zscores :: "jsnum option list \<Rightarrow> sigbar list" where
  "bars_of_zscores zs =
     map (\<lambda>z. \<lparr>time = Fin 0, close = Fin 0, mean = None, std = None, zscore = z, signal = z\<rparr>) zs"

text \<open>Metrics for the evaluator: Sharpe 1.2, Calmar 0.5, maximum drawdown -0.1 and 15
  trades (each decimal literal is the binary64 value nearest to it), and metrics that are
  all \<open>NaN\<close>.\<close>

definition example_metrics :: metrics where
  "example_metrics =
     emptyMetrics\<lparr>Sharpe_Ratio := fl (12 / 10), Calmar_Ratio := fl (5 / 10),
                  Max_Drawdown := fl (- 1 / 10), Number_of_Trades := Fin 15\<rparr>"

definition nan_metrics :: metrics where
  "nan_metrics = emptyMetrics\<lparr>Max_Drawdown := NaN, Number_of_Trades := NaN\<rparr>"

text \<open>Metrics that sit exactly on the default thresholds 1.0, 1.0, -0.3 and 10.\<close>

definition boundary_metrics :: metrics where
  "boundary_metrics =
     emptyMetrics\<lparr>Sharpe_Ratio := Fin 1, Calmar_Ratio := Fin 1,
                  Max_Drawdown := fl (- 3 / 10), Number_of_Trades := Fin 10\<rparr>"

text \<open>The monitor right after its start, an hour whose two bars 1 and 3 give the z-score 1
  under window 2, and the same hour with a last close that is not a number.\<close>

definition idle_state :: live_state where
  "idle_state = \<lparr>lastHourlyTimestamp = None, currentPosition = PosNone\<rparr>"

definition rising_input :: tick_input where
  "rising_input =
     \<lparr>form_logic = Trend, form_side = Both, form_window = 2, form_entry = Fin (1 / 2),
      form_exit = Fin (- (1 / 2)), token = ''t'', chatId = ''1'',
      currentHourlyTimestamp = 3600000,
      recentData = Some [\<lparr>time = Fin 0, close = Fin 1\<rparr>, \<lparr>time = Fin 3600000, close = Fin 3\<rparr>],
      hourlySent = False\<rparr>"

definition nan_input :: tick_input where
  "nan_input = rising_input\<lparr>recentData := Some [\<lparr>time = Fin 0, close = Fin 1\<rparr>,
                                                \<lparr>time = Fin 3600000, close = NaN\<rparr>]\<rparr>"

text \<open>Price series: one that rises and falls, one with a zero price, one constant at 0.1,
  one constant at 1, and two bars a day apart.\<close>

definition falling_data :: "bar list" where
  "falling_data = [\<lparr>time = Fin 0, close = Fin 1\<rparr>, \<lparr>time = Fin 3600000, close = Fin 3\<rparr>,
                   \<lparr>time = Fin 7200000, close = Fin (3 / 2)\<rparr>]"

definition zero_price_data :: "bar list" where
  "zero_price_data = [\<lparr>time = Fin 0, close = Fin 0\<rparr>, \<lparr>time = Fin 3600000, close = Fin 1\<rparr>]"

definition tenth_data :: "bar list" where
  "tenth_data = [\<lparr>time = Fin 0, close = fl (1 / 10)\<rparr>, \<lparr>time = Fin 3600000, close = fl (1 / 10)\<rparr>,
                 \<lparr>time = Fin 7200000, close = fl (1 / 10)\<rparr>]"

definition flat_data :: "bar list" where
  "flat_data = [\<lparr>time = Fin 0, close = Fin 1\<rparr>, \<lparr>time = Fin 3600000, close = Fin 1\<rparr>]"

definition two_day_data :: "bar list" where
  "two_day_data = [\<lparr>time = Fin 1640995200000, close = Fin 100\<rparr>,
                   \<lparr>time = Fin 1641081600000, close = Fin 102\<rparr>]"

definition two_day_metrics :: metrics where
  "two_day_metrics =
     emptyMetrics\<lparr>Start_Date := ''2022-01-01 00:00:00'', End_Date := ''2022-01-02 00:00:00'',
                  Period_days := Fin 1\<rparr>"

section \<open>Rounding\<close>

lemma expo_ge1:
  assumes "1 \<le> \<bar>r\<bar>"
  shows "2 powi expo r \<le> \<bar>r\<bar> \<and> \<bar>r\<bar> < 2 powi (expo r + 1)"
proof -
  define n where "n = nat \<lfloor>\<bar>r\<bar>\<rfloor>"
  define k where "k = floorlog 2 n"
  have n1: "0 < n" using assms by (simp add: n_def)
  have b: "2 ^ (k - 1) \<le> n \<and> n < 2 ^ k"
    unfolding k_def using floorlog_bounds[of n 2] n1 by simp
  have k1: "1 \<le> k" using n1 by (simp add: k_def floorlog_def)
  have e: "expo r = int (k - 1)" using assms k1 by (simp add: expo_def n_def k_def)
  have nr1: "real n \<le> \<bar>r\<bar>" using assms by (simp add: n_def)
  have "real n = of_int \<lfloor>\<bar>r\<bar>\<rfloor>" using assms by (simp add: n_def)
  hence nr2: "\<bar>r\<bar> < real n + 1" by linarith
  have "real (2 ^ (k - 1)) \<le> real n" using b by (simp only: of_nat_le_iff)
  hence "(2::real) ^ (k - 1) \<le> real n" by simp
  hence lo: "2 ^ (k - 1) \<le> \<bar>r\<bar>" using nr1 by linarith
  have "n + 1 \<le> 2 ^ k" using b by simp
  hence "real (n + 1) \<le> real (2 ^ k)" by (simp only: of_nat_le_iff)
  hence "real n + 1 \<le> (2::real) ^ k" by simp
  hence hi: "\<bar>r\<bar> < 2 ^ k" using nr2 by linarith
  have k': "int (k - 1) + 1 = int k" using k1 by simp
  show ?thesis unfolding e k' using lo hi by simp
qed

lemma expo_lt1:
  assumes "r \<noteq> 0" "\<bar>r\<bar> < 1"
  shows "2 powi expo r \<le> \<bar>r\<bar> \<and> \<bar>r\<bar> < 2 powi (expo r + 1)"
proof -
  define x where "x = 1 / \<bar>r\<bar>"
  define m where "m = nat (\<lceil>x\<rceil> - 1)"
  define k where "k = floorlog 2 m"
  have x1: "1 < x" using assms by (simp add: x_def)
  hence c2: "2 \<le> \<lceil>x\<rceil>" by linarith
  hence m1: "0 < m" by (simp add: m_def)
  have b: "2 ^ (k - 1) \<le> m \<and> m < 2 ^ k"
    unfolding k_def using floorlog_bounds[of m 2] m1 by simp
  have k1: "1 \<le> k" using m1 by (simp add: k_def floorlog_def)
  have e: "expo r = - int k" using assms by (simp add: expo_def m_def k_def x_def)
  have rm: "real m = of_int \<lceil>x\<rceil> - 1" using c2 by (simp add: m_def)
  have mx1: "real m < x" unfolding rm by linarith
  have mx2: "x \<le> real m + 1" unfolding rm by linarith
  have "real (2 ^ (k - 1)) \<le> real m" using b by (simp only: of_nat_le_iff)
  hence "(2::real) ^ (k - 1) \<le> real m" by simp
  hence lo: "2 ^ (k - 1) < x" using mx1 by linarith
  have "m + 1 \<le> 2 ^ k" using b by simp
  hence "real (m + 1) \<le> real (2 ^ k)" by (simp only: of_nat_le_iff)
  hence "real m + 1 \<le> (2::real) ^ k" by simp
  hence hi: "x \<le> 2 ^ k" using mx2 by linarith
  have rx: "\<bar>r\<bar> = 1 / x" using assms by (simp add: x_def)
  have xpos: "0 < x" using x1 by simp
  have A: "2 powi (- int k) \<le> \<bar>r\<bar>"
    using hi xpos by (simp add: rx power_int_minus field_simps)
  have k': "- int k + 1 = - int (k - 1)" using k1 by simp
  have "1 / x < 1 / 2 ^ (k - 1)" using lo by (simp add: frac_less2)
  hence B: "\<bar>r\<bar> < 2 powi (- int k + 1)"
    unfolding k' rx by (simp add: power_int_minus inverse_eq_divide)
  show ?thesis using A B by (simp add: e)
qed

lemma expo_bounds:
  "r \<noteq> 0 \<Longrightarrow> 2 powi expo r \<le> \<bar>r\<bar> \<and> \<bar>r\<bar> < 2 powi (expo r + 1)"
  using expo_ge1 expo_lt1 by (cases "1 \<le> \<bar>r\<bar>") auto

lemma powi2_mono: "a \<le> b \<Longrightarrow> (2::real) powi a \<le> 2 powi b"
  by (rule power_int_increasing) simp_all

lemma expo_unique:
  assumes "2 powi e \<le> \<bar>r\<bar>" "\<bar>r\<bar> < 2 powi (e + 1)"
  shows "expo r = e"
proof -
  have "(0::real) < 2 powi e" by (rule zero_less_power_int) simp
  hence "0 < \<bar>r\<bar>" using assms(1) by linarith
  hence r0: "r \<noteq> 0" by simp
  note b = expo_bounds[OF r0]
  have "\<not> expo r + 1 \<le> e"
  proof
    assume "expo r + 1 \<le> e"
    hence "(2::real) powi (expo r + 1) \<le> 2 powi e" by (rule powi2_mono)
    thus False using b assms by linarith
  qed
  moreover have "\<not> e + 1 \<le> expo r"
  proof
    assume "e + 1 \<le> expo r"
    hence "(2::real) powi (e + 1) \<le> 2 powi expo r" by (rule powi2_mono)
    thus False using b assms by linarith
  qed
  ultimately show ?thesis by linarith
qed

lemmas fl_eval = fl_def expo_def round_even_def compute_floorlog Let_def

lemma fl_lit_1_5: "fl (1 / 5) = Fin (3602879701896397 / 2 ^ 54)"
  by (simp add: fl_eval)

lemma fl_lit_m6_5: "fl (- (6 / 5)) = Fin (- (5404319552844595 / 2 ^ 52))"
  by (simp add: fl_eval)

lemma fl_lit_3_2: "fl (3 / 2) = Fin (3 / 2)"
  by (simp add: fl_eval)

lemma fl_lit_6_5: "fl (6 / 5) = Fin (5404319552844595 / 2 ^ 52)"
  by (simp add: fl_eval)

lemma fl_lit_1_2: "fl (1 / 2) = Fin (1 / 2)"
  by (simp add: fl_eval)

lemma fl_lit_m1_10: "fl (- (1 / 10)) = Fin (- (3602879701896397 / 2 ^ 55))"
  by (simp add: fl_eval)

lemma fl_lit_m3_10: "fl (- (3 / 10)) = Fin (- (5404319552844595 / 2 ^ 54))"
  by (simp add: fl_eval)

section \<open>Comparisons\<close>

lemma jlt_cases: "a \<noteq> NaN \<Longrightarrow> b \<noteq> NaN \<Longrightarrow> a \<noteq> b \<Longrightarrow> jlt a b \<or> jlt b a"
  by (cases a; cases b) auto

lemma jle_iff: "jle a b \<longleftrightarrow> jlt a b \<or> (a = b \<and> a \<noteq> NaN)"
  by (cases a; cases b) auto

lemma jlt_trans: "jlt a b \<Longrightarrow> jlt b c \<Longrightarrow> jlt a c"
  by (cases a; cases b; cases c) auto

lemma jlt_asym: "jlt a b \<Longrightarrow> \<not> jlt b a"
  by (cases a; cases b) auto

section \<open>Signal generation\<close>

lemma length_ffill: "length (ffill l ps) = length ps"
  by (induction l ps rule: ffill.induct) simp_all

lemma ffill_nth:
  "i < length ps \<Longrightarrow>
   ffill l ps ! i = (case ps ! i of Some p \<Rightarrow> p | None \<Rightarrow> if i = 0 then l else ffill l ps ! (i - 1))"
proof (induction l ps arbitrary: i rule: ffill.induct)
  case (1 lastPosition)
  then show ?case by simp
next
  case (2 lastPosition ps)
  then show ?case by (cases i) (auto split: option.splits)
next
  case (3 lastPosition p ps)
  then show ?case by (cases i) (auto split: option.splits)
qed

lemma length_positions: "length (positions data en ex lg sd) = length data"
  by (simp add: positions_def length_ffill)

lemma length_generateSignals: "length (generateSignals data en ex lg sd) = length data"
  by (simp add: generateSignals_def)

lemma pos_generateSignals:
  "i < length data \<Longrightarrow> pos (generateSignals data en ex lg sd ! i) = positions data en ex lg sd ! i"
  by (simp add: generateSignals_def with_pos_def)

lemma positions_nth:
  "i < length data \<Longrightarrow>
   positions data en ex lg sd ! i =
     (case rawPosition lg sd en ex (zscore (data ! i)) of
        Some p \<Rightarrow> p
      | None \<Rightarrow> if i = 0 then 0 else positions data en ex lg sd ! (i - 1))"
  unfolding positions_def by (subst ffill_nth) simp_all

lemma ffill_snoc:
  "ffill l (ps @ [x]) = ffill l ps @ [case x of Some p \<Rightarrow> p | None \<Rightarrow> last (l # ffill l ps)]"
  by (induction l ps rule: ffill.induct) (auto split: option.splits)

lemma positions_snoc:
  "positions (data @ [b]) en ex lg sd =
     positions data en ex lg sd
     @ [case rawPosition lg sd en ex (zscore b) of
          Some p \<Rightarrow> p
        | None \<Rightarrow> last (0 # positions data en ex lg sd)]"
  unfolding positions_def by (simp add: ffill_snoc)

lemma pos_last_generateSignals:
  "pos (last (generateSignals (data @ [b]) en ex lg sd)) =
     (case rawPosition lg sd en ex (zscore b) of
        Some p \<Rightarrow> p
      | None \<Rightarrow> last (0 # positions data en ex lg sd))"
proof -
  have "generateSignals (data @ [b]) en ex lg sd \<noteq> []"
    by (simp add: generateSignals_def)
  hence "last (generateSignals (data @ [b]) en ex lg sd)
       = generateSignals (data @ [b]) en ex lg sd ! length data"
    by (simp add: last_conv_nth length_generateSignals)
  thus ?thesis
    by (simp add: pos_generateSignals positions_snoc nth_append length_positions)
qed

lemma scenario_positions:
  "map pos (generateSignals
         (bars_of_zscores [Some NaN, Some NaN, Some (fl (3 / 2)), Some (fl (2 / 10)), Some (fl (- 12 / 10))])
         (Fin 1) (Fin (- 1)) Trend Long) = [0, 0, 1, 1, 0]"
  by (simp add: fl_lit_1_5 fl_lit_m6_5 fl_lit_3_2 generateSignals_def positions_def rawPosition_def
        bars_of_zscores_def with_pos_def upt_conv_Cons)

text \<open>
  C4. In \<^verbatim>\<open>generateSignals\<close>, a bar with no decision of its own (its z-score is
  \<^verbatim>\<open>null\<close> or \<open>NaN\<close>, or the logic is trend and the z-score reaches neither threshold)
  gets the position emitted for the bar before it, and 0 at index 0. For trend/long with
  entry 1.0 and exit -1.0, the z-scores NaN, NaN, 1.5, 0.2, -1.2 give the positions
  0, 0, 1, 1, 0.
\<close>

theorem generateSignals_forward_fill:
  "(\<forall>i < length data.
      (zscore (data ! i) = None \<or> zscore (data ! i) = Some NaN
       \<or> (logicType = Trend \<and> (\<exists>z. zscore (data ! i) = Some z \<and> \<not> jge z entryThreshold
                                  \<and> \<not> jle z exitThreshold)))
      \<longrightarrow> pos (generateSignals data entryThreshold exitThreshold logicType sd ! i)
          = (if i = 0 then 0
             else pos (generateSignals data entryThreshold exitThreshold logicType sd ! (i - 1))))
   \<and> map pos (generateSignals
         (bars_of_zscores [Some NaN, Some NaN, Some (fl (3 / 2)), Some (fl (2 / 10)),
                           Some (fl (- 12 / 10))])
         (Fin 1) (Fin (- 1)) Trend Long) = [0, 0, 1, 1, 0]"
proof (intro conjI allI impI)
  fix i
  assume i: "i < length data"
    and c: "zscore (data ! i) = None \<or> zscore (data ! i) = Some NaN
       \<or> (logicType = Trend \<and> (\<exists>z. zscore (data ! i) = Some z \<and> \<not> jge z entryThreshold
                                  \<and> \<not> jle z exitThreshold))"
  from c have raw: "rawPosition logicType sd entryThreshold exitThreshold (zscore (data ! i)) = None"
    by (auto simp: rawPosition_def)
  have "i - 1 < length data" using i by simp
  thus "pos (generateSignals data entryThreshold exitThreshold logicType sd ! i)
          = (if i = 0 then 0
             else pos (generateSignals data entryThreshold exitThreshold logicType sd ! (i - 1)))"
    using i raw by (simp add: pos_generateSignals positions_nth[of i])
next
  show "map pos (generateSignals
         (bars_of_zscores [Some NaN, Some NaN, Some (fl (3 / 2)), Some (fl (2 / 10)),
                           Some (fl (- 12 / 10))])
         (Fin 1) (Fin (- 1)) Trend Long) = [0, 0, 1, 1, 0]"
    by (rule scenario_positions)
qed

theorem generateSignals_forward_fill_witness:
  "pos (generateSignals (bars_of_zscores [Some (Fin 2), Some (Fin 0), None]) (Fin 1) (Fin (- 1))
          Trend Long ! 1) = 1
   \<and> pos (generateSignals (bars_of_zscores [Some (Fin 2), Some (Fin 0), None]) (Fin 1) (Fin (- 1))
          Trend Long ! 0) = 1"
proof -
  let ?d = "bars_of_zscores [Some (Fin 2), Some (Fin 0), None]"
  have a: "(1::nat) < length ?d" by (simp add: bars_of_zscores_def)
  have b: "zscore (?d ! 1) = None \<or> zscore (?d ! 1) = Some NaN
       \<or> (Trend = Trend \<and> (\<exists>z. zscore (?d ! 1) = Some z \<and> \<not> jge z (Fin 1)
                                  \<and> \<not> jle z (Fin (- 1))))"
    by (simp add: bars_of_zscores_def)
  have c: "pos (generateSignals ?d (Fin 1) (Fin (- 1)) Trend Long ! 0) = 1"
    by (simp add: generateSignals_def positions_def rawPosition_def
        bars_of_zscores_def with_pos_def upt_conv_Cons)
  from generateSignals_forward_fill[of ?d Trend "Fin 1" "Fin (- 1)" Long] a b
  have "pos (generateSignals ?d (Fin 1) (Fin (- 1)) Trend Long ! 1)
        = pos (generateSignals ?d (Fin 1) (Fin (- 1)) Trend Long ! (1 - 1))"
    by (metis (no_types, lifting) One_nat_def n_not_Suc_n)
  thus ?thesis using c by simp
qed

text \<open>
  C5. With side both, under trend and under fast logic, a z-score that is at least the entry
  threshold and at most the exit threshold gets the raw position -1, and so the emitted
  position -1: the short assignment comes second and overwrites the long one.
\<close>

theorem both_sides_short_wins:
  assumes "logicType = Trend \<or> logicType = Fast"
    and "i < length data"
    and "zscore (data ! i) = Some z"
    and "jge z entryThreshold"
    and "jle z exitThreshold"
  shows "rawPosition logicType Both entryThreshold exitThreshold (zscore (data ! i)) = Some (- 1)
       \<and> pos (generateSignals data entryThreshold exitThreshold logicType Both ! i) = - 1"
proof -
  have nn: "z \<noteq> NaN" using assms(5) by (cases z) auto
  have raw: "rawPosition logicType Both entryThreshold exitThreshold (zscore (data ! i)) = Some (- 1)"
    using assms nn by (auto simp: rawPosition_def)
  thus ?thesis using assms(2) by (simp add: pos_generateSignals positions_nth[of i])
qed

theorem both_sides_short_wins_witness:
  "rawPosition Fast Both (Fin (- 1)) (Fin 1) (zscore (bars_of_zscores [Some (Fin 0)] ! 0)) = Some (- 1)
   \<and> pos (generateSignals (bars_of_zscores [Some (Fin 0)]) (Fin (- 1)) (Fin 1) Fast Both ! 0) = - 1"
  using both_sides_short_wins[of Fast 0 "bars_of_zscores [Some (Fin 0)]" "Fin 0" "Fin (- 1)" "Fin 1"]
  by (simp add: bars_of_zscores_def)

section \<open>The live decision against the batch rule\<close>

text \<open>
  C1, as the code has it. The live transition and the batch rule agree on the next position
  for trend and fast logic and each of the three sides when the exit threshold is below the
  entry threshold, the z-score is a number different from both thresholds, the current
  position is one the side allows and equals the position the batch emitted last, and
  moreover the z-score is outside the band between the thresholds, or the current position
  is flat, or the logic is trend with side both, or the logic is fast with a single side.
\<close>

theorem live_matches_batch_outside_band:
  assumes lg: "logicType = Trend \<or> logicType = Fast"
    and sd: "sd = Long \<or> sd = Short \<or> sd = Both"
    and th: "jlt exitThreshold entryThreshold"
    and z: "zscore b = Some z" "z \<noteq> NaN" "z \<noteq> entryThreshold" "z \<noteq> exitThreshold"
    and el: "sd = Long \<longrightarrow> cur \<noteq> PosShort" "sd = Short \<longrightarrow> cur \<noteq> PosLong"
    and prev: "last (0 # positions data entryThreshold exitThreshold logicType sd) = pos_code cur"
    and region: "jgt z entryThreshold \<or> jlt z exitThreshold \<or> cur = PosNone
                 \<or> (logicType = Trend \<and> sd = Both) \<or> (logicType = Fast \<and> sd \<noteq> Both)"
  shows "pos (last (generateSignals (data @ [b]) entryThreshold exitThreshold logicType sd))
         = pos_code (fst (nextPosition_of logicType sd entryThreshold exitThreshold z cur))"
proof -
  have en: "entryThreshold \<noteq> NaN" and ex: "exitThreshold \<noteq> NaN"
    using th by (cases exitThreshold; cases entryThreshold; auto)+
  consider (hi) "jlt entryThreshold z" | (mid) "jlt exitThreshold z" "jlt z entryThreshold"
    | (lo) "jlt z exitThreshold"
    using jlt_cases[OF z(2) en z(3)] jlt_cases[OF z(2) ex z(4)] by blast
  thus ?thesis
  proof cases
    case hi
    have 1: "jlt exitThreshold z" using th hi by (rule jlt_trans)
    have 2: "\<not> jlt z entryThreshold" "\<not> jlt z exitThreshold"
      using hi 1 jlt_asym by blast+
    show ?thesis
      using lg sd hi 1 2 z el prev
      by (cases cur)
         (auto simp: pos_last_generateSignals rawPosition_def nextPosition_of_def fast_rules_def
            jle_iff pos_code_def)
  next
    case mid
    have 2: "\<not> jlt entryThreshold z" "\<not> jlt z exitThreshold"
      using mid jlt_asym by blast+
    show ?thesis
      using lg sd mid 2 z el prev region
      by (cases cur)
         (auto simp: pos_last_generateSignals rawPosition_def nextPosition_of_def fast_rules_def
            jle_iff pos_code_def)
  next
    case lo
    have 1: "jlt z entryThreshold" using lo th by (rule jlt_trans)
    have 2: "\<not> jlt entryThreshold z" "\<not> jlt exitThreshold z"
      using lo 1 jlt_asym by blast+
    show ?thesis
      using lg sd lo 1 2 z el prev
      by (cases cur)
         (auto simp: pos_last_generateSignals rawPosition_def nextPosition_of_def fast_rules_def
            jle_iff pos_code_def)
  qed
qed

theorem live_matches_batch_outside_band_witness:
  "pos (last (generateSignals (bars_of_zscores [Some (Fin 2)] @ [hd (bars_of_zscores [Some (Fin 3)])])
          (Fin 1) (Fin (- 1)) Trend Long))
   = pos_code (fst (nextPosition_of Trend Long (Fin 1) (Fin (- 1)) (Fin 3) PosLong))
   \<and> pos_code (fst (nextPosition_of Trend Long (Fin 1) (Fin (- 1)) (Fin 3) PosLong)) = 1"
proof -
  let ?data = "bars_of_zscores [Some (Fin 2)]"
  let ?b = "hd (bars_of_zscores [Some (Fin 3)])"
  have prev: "last (0 # positions ?data (Fin 1) (Fin (- 1)) Trend Long) = pos_code PosLong"
    by (simp add: positions_def rawPosition_def bars_of_zscores_def pos_code_def)
  have z: "zscore ?b = Some (Fin 3)" by (simp add: bars_of_zscores_def)
  have "pos (last (generateSignals (?data @ [?b]) (Fin 1) (Fin (- 1)) Trend Long))
        = pos_code (fst (nextPosition_of Trend Long (Fin 1) (Fin (- 1)) (Fin 3) PosLong))"
    by (rule live_matches_batch_outside_band[OF _ _ _ z _ _ _ _ _ prev]) simp_all
  moreover have "pos_code (fst (nextPosition_of Trend Long (Fin 1) (Fin (- 1)) (Fin 3) PosLong)) = 1"
    by (simp add: nextPosition_of_def pos_code_def)
  ultimately show ?thesis by simp
qed

text \<open>
  C1 as stated fails: under fast/both with entry 1 and exit -1, after a bar with z-score 2
  the batch position is long; at the next z-score 0.25 the batch holds long (1), and the
  live transition from long goes flat.
\<close>

theorem live_differs_from_batch:
  "pos (generateSignals (bars_of_zscores [Some (Fin 2), Some (Fin (1 / 4))])
          (Fin 1) (Fin (- 1)) Fast Both ! 0) = pos_code PosLong
   \<and> pos (generateSignals (bars_of_zscores [Some (Fin 2), Some (Fin (1 / 4))])
          (Fin 1) (Fin (- 1)) Fast Both ! 1) = 1
   \<and> pos_code (fst (nextPosition_of Fast Both (Fin 1) (Fin (- 1)) (Fin (1 / 4)) PosLong)) = 0"
  by (simp add: generateSignals_def positions_def rawPosition_def bars_of_zscores_def with_pos_def
      upt_conv_Cons nextPosition_of_def fast_rules_def pos_code_def)

section \<open>The evaluator\<close>

lemma evaluate_example:
  "evaluate default_evaluator example_metrics =
     (False, [Reason True ''Sharpe Ratio'' (Fixed 2 (fl (12 / 10))) (Fin 1),
              Reason False ''Calmar Ratio'' (Fixed 2 (fl (5 / 10))) (Fin 1),
              Reason True ''Max Drawdown'' (Fixed 4 (fl (- 1 / 10))) (fl (- 3 / 10)),
              Reason True ''Number of Trades'' (Plain (Fin 15)) (Fin 10)])"
  by (simp add: evaluate_def check_step_def default_evaluator_def example_metrics_def emptyMetrics_def
      fl_lit_6_5 fl_lit_1_2 fl_lit_m1_10 fl_lit_m3_10)

lemma jle_NaN [simp]: "\<not> jle a NaN" "\<not> jle NaN a"
  by (cases a; simp)+

lemma evaluate_boundary:
  "evaluate default_evaluator boundary_metrics =
     (True, [Reason True ''Sharpe Ratio'' (Fixed 2 (Fin 1)) (Fin 1),
             Reason True ''Calmar Ratio'' (Fixed 2 (Fin 1)) (Fin 1),
             Reason True ''Max Drawdown'' (Fixed 4 (fl (- 3 / 10))) (fl (- 3 / 10)),
             Reason True ''Number of Trades'' (Plain (Fin 10)) (Fin 10)])"
  by (simp add: evaluate_def check_step_def default_evaluator_def boundary_metrics_def
      emptyMetrics_def fl_lit_m3_10 Let_def)

text \<open>
  C7. \<^verbatim>\<open>evaluate\<close> always returns four reason lines, for Sharpe, Calmar, maximum
  drawdown and number of trades in this order, each against its own threshold. The Sharpe and
  Calmar lines pass exactly when the metric is not \<open>NaN\<close> and is at least its threshold, the
  drawdown and trades lines exactly when the metric is at least its threshold; so a metric
  that is \<open>NaN\<close> fails its check. The strategy is recommended exactly when all four lines
  pass, that is, when all four comparisons hold. With Sharpe 1.2, Calmar 0.5, maximum
  drawdown -0.1 and 15 trades under the default thresholds, only the Calmar line fails and
  the strategy is not recommended; metrics equal to the default thresholds pass all four
  checks and are recommended.
\<close>

theorem evaluate_four_reasons:
  "(case evaluate ev m of (recommended, reasons) \<Rightarrow>
      length reasons = 4
      \<and> map metric reasons = [''Sharpe Ratio'', ''Calmar Ratio'', ''Max Drawdown'', ''Number of Trades'']
      \<and> map bound reasons
          = [minSharpeRatio ev, minCalmarRatio ev, maxDrawdownThreshold ev, minTrades ev]
      \<and> (passed (reasons ! 0)
           \<longleftrightarrow> Sharpe_Ratio m \<noteq> NaN \<and> jge (Sharpe_Ratio m) (minSharpeRatio ev))
      \<and> (passed (reasons ! 1)
           \<longleftrightarrow> Calmar_Ratio m \<noteq> NaN \<and> jge (Calmar_Ratio m) (minCalmarRatio ev))
      \<and> (passed (reasons ! 2) \<longleftrightarrow> jge (Max_Drawdown m) (maxDrawdownThreshold ev))
      \<and> (passed (reasons ! 3) \<longleftrightarrow> jge (Number_of_Trades m) (minTrades ev))
      \<and> (Sharpe_Ratio m = NaN \<longrightarrow> \<not> passed (reasons ! 0))
      \<and> (Calmar_Ratio m = NaN \<longrightarrow> \<not> passed (reasons ! 1))
      \<and> (Max_Drawdown m = NaN \<longrightarrow> \<not> passed (reasons ! 2))
      \<and> (Number_of_Trades m = NaN \<longrightarrow> \<not> passed (reasons ! 3))
      \<and> (recommended \<longleftrightarrow> (\<forall>r \<in> set reasons. passed r))
      \<and> (recommended
           \<longleftrightarrow> (Sharpe_Ratio m \<noteq> NaN \<and> jge (Sharpe_Ratio m) (minSharpeRatio ev))
               \<and> (Calmar_Ratio m \<noteq> NaN \<and> jge (Calmar_Ratio m) (minCalmarRatio ev))
               \<and> jge (Max_Drawdown m) (maxDrawdownThreshold ev)
               \<and> jge (Number_of_Trades m) (minTrades ev)))
   \<and> evaluate default_evaluator example_metrics =
       (False, [Reason True ''Sharpe Ratio'' (Fixed 2 (fl (12 / 10))) (Fin 1),
                Reason False ''Calmar Ratio'' (Fixed 2 (fl (5 / 10))) (Fin 1),
                Reason True ''Max Drawdown'' (Fixed 4 (fl (- 1 / 10))) (fl (- 3 / 10)),
                Reason True ''Number of Trades'' (Plain (Fin 15)) (Fin 10)])
   \<and> evaluate default_evaluator boundary_metrics =
       (True, [Reason True ''Sharpe Ratio'' (Fixed 2 (Fin 1)) (Fin 1),
               Reason True ''Calmar Ratio'' (Fixed 2 (Fin 1)) (Fin 1),
               Reason True ''Max Drawdown'' (Fixed 4 (fl (- 3 / 10))) (fl (- 3 / 10)),
               Reason True ''Number of Trades'' (Plain (Fin 10)) (Fin 10)])"
proof (intro conjI)
  show "case evaluate ev m of (recommended, reasons) \<Rightarrow>
      length reasons = 4
      \<and> map metric reasons = [''Sharpe Ratio'', ''Calmar Ratio'', ''Max Drawdown'', ''Number of Trades'']
      \<and> map bound reasons
          = [minSharpeRatio ev, minCalmarRatio ev, maxDrawdownThreshold ev, minTrades ev]
      \<and> (passed (reasons ! 0)
           \<longleftrightarrow> Sharpe_Ratio m \<noteq> NaN \<and> jge (Sharpe_Ratio m) (minSharpeRatio ev))
      \<and> (passed (reasons ! 1)
           \<longleftrightarrow> Calmar_Ratio m \<noteq> NaN \<and> jge (Calmar_Ratio m) (minCalmarRatio ev))
      \<and> (passed (reasons ! 2) \<longleftrightarrow> jge (Max_Drawdown m) (maxDrawdownThreshold ev))
      \<and> (passed (reasons ! 3) \<longleftrightarrow> jge (Number_of_Trades m) (minTrades ev))
      \<and> (Sharpe_Ratio m = NaN \<longrightarrow> \<not> passed (reasons ! 0))
      \<and> (Calmar_Ratio m = NaN \<longrightarrow> \<not> passed (reasons ! 1))
      \<and> (Max_Drawdown m = NaN \<longrightarrow> \<not> passed (reasons ! 2))
      \<and> (Number_of_Trades m = NaN \<longrightarrow> \<not> passed (reasons ! 3))
      \<and> (recommended \<longleftrightarrow> (\<forall>r \<in> set reasons. passed r))
      \<and> (recommended
           \<longleftrightarrow> (Sharpe_Ratio m \<noteq> NaN \<and> jge (Sharpe_Ratio m) (minSharpeRatio ev))
               \<and> (Calmar_Ratio m \<noteq> NaN \<and> jge (Calmar_Ratio m) (minCalmarRatio ev))
               \<and> jge (Max_Drawdown m) (maxDrawdownThreshold ev)
               \<and> jge (Number_of_Trades m) (minTrades ev))"
    by (auto simp: evaluate_def check_step_def Let_def)
next
  show "evaluate default_evaluator example_metrics =
       (False, [Reason True ''Sharpe Ratio'' (Fixed 2 (fl (12 / 10))) (Fin 1),
                Reason False ''Calmar Ratio'' (Fixed 2 (fl (5 / 10))) (Fin 1),
                Reason True ''Max Drawdown'' (Fixed 4 (fl (- 1 / 10))) (fl (- 3 / 10)),
                Reason True ''Number of Trades'' (Plain (Fin 15)) (Fin 10)])"
    by (rule evaluate_example)
next
  show "evaluate default_evaluator boundary_metrics =
       (True, [Reason True ''Sharpe Ratio'' (Fixed 2 (Fin 1)) (Fin 1),
               Reason True ''Calmar Ratio'' (Fixed 2 (Fin 1)) (Fin 1),
               Reason True ''Max Drawdown'' (Fixed 4 (fl (- 3 / 10))) (fl (- 3 / 10)),
               Reason True ''Number of Trades'' (Plain (Fin 10)) (Fin 10)])"
    by (rule evaluate_boundary)
qed

theorem evaluate_four_reasons_witness:
  "Sharpe_Ratio nan_metrics = NaN \<and> Calmar_Ratio nan_metrics = NaN
   \<and> Max_Drawdown nan_metrics = NaN \<and> Number_of_Trades nan_metrics = NaN
   \<and> map passed (snd (evaluate default_evaluator nan_metrics)) = [False, False, False, False]
   \<and> \<not> fst (evaluate default_evaluator nan_metrics)
   \<and> map passed (snd (evaluate default_evaluator boundary_metrics)) = [True, True, True, True]
   \<and> fst (evaluate default_evaluator boundary_metrics)"
  using evaluate_four_reasons[where ev = default_evaluator and m = nan_metrics]
  by (simp add: nan_metrics_def emptyMetrics_def evaluate_def check_step_def default_evaluator_def)

section \<open>The live monitor's state\<close>

lemma rising_zscore:
  "calculateZScore [\<lparr>time = Fin 0, close = Fin 1\<rparr>, \<lparr>time = Fin 3600000, close = Fin 3\<rparr>] 2
   = [\<lparr>time = Fin 0, close = Fin 1, mean = None, std = None, zscore = None\<rparr>,
      \<lparr>time = Fin 3600000, close = Fin 3, mean = Some (Fin 2), std = Some (Fin 1),
       zscore = Some (Fin 1)\<rparr>]"
  by (simp add: calculateZScore_def zscore_at_def slice_def upt_conv_Cons jsub_def jpow2_def fl_eval)

lemma rising_tick:
  "checkTradingSignal idle_state rising_input =
     \<lparr>state_after = \<lparr>lastHourlyTimestamp = Some 3600000, currentPosition = PosLong\<rparr>,
      outcome_of = Processed (Some Entry_long) ''Enter Long'',
      events = [Fetch, Status ''Monitoring'', Send PosLong (Fin 1) (Fin 3),
                Status ''Warning: failed to send Telegram message (check token/chat ID).'']\<rparr>"
  by (simp add: checkTradingSignal_def rising_input_def idle_state_def rising_zscore
      nextPosition_of_def signal_of_def actionLabel_def)

lemma nan_zscore:
  "zscore (last (calculateZScore [\<lparr>time = Fin 0, close = Fin 1\<rparr>,
                                  \<lparr>time = Fin 3600000, close = NaN\<rparr>] 2)) = Some NaN"
  by (simp add: calculateZScore_def zscore_at_def slice_def upt_conv_Cons jsub_def jpow2_def fl_eval)

text \<open>
  C8. The state after a call of \<^verbatim>\<open>checkTradingSignal\<close> is the same whether the hourly
  message is sent or not, and the position the message reports is the position already
  stored in \<^verbatim>\<open>currentPosition\<close>.
\<close>

theorem send_failure_keeps_position:
  "state_after (checkTradingSignal s (inp\<lparr>hourlySent := False\<rparr>))
     = state_after (checkTradingSignal s (inp\<lparr>hourlySent := True\<rparr>))
   \<and> (\<forall>sent p z c. Send p z c \<in> set (events (checkTradingSignal s (inp\<lparr>hourlySent := sent\<rparr>)))
        \<longrightarrow> currentPosition (state_after (checkTradingSignal s (inp\<lparr>hourlySent := sent\<rparr>))) = p)"
  by (auto simp: checkTradingSignal_def Let_def split: option.splits if_splits)

theorem send_failure_keeps_position_witness:
  "Send PosLong (Fin 1) (Fin 3) \<in> set (events (checkTradingSignal idle_state rising_input))
   \<and> currentPosition (state_after (checkTradingSignal idle_state rising_input)) = PosLong
   \<and> currentPosition (state_after (checkTradingSignal idle_state (rising_input\<lparr>hourlySent := True\<rparr>)))
       = PosLong"
proof -
  have r: "rising_input\<lparr>hourlySent := False\<rparr> = rising_input"
    by (simp add: rising_input_def)
  have e: "Send PosLong (Fin 1) (Fin 3) \<in> set (events (checkTradingSignal idle_state rising_input))"
    by (simp add: rising_tick)
  from send_failure_keeps_position[of idle_state rising_input] r e
  have "currentPosition (state_after (checkTradingSignal idle_state rising_input)) = PosLong"
    and "state_after (checkTradingSignal idle_state rising_input)
         = state_after (checkTradingSignal idle_state (rising_input\<lparr>hourlySent := True\<rparr>))"
    by metis+
  thus ?thesis using e by simp
qed

text \<open>
  C9. After a call that processed a closed bar, a call that sees the same hourly timestamp
  returns at once: it fetches nothing, updates no status, sends nothing, and leaves
  \<^verbatim>\<open>lastHourlyTimestamp\<close> and \<^verbatim>\<open>currentPosition\<close> as they were.
\<close>

theorem repeated_tick_is_noop:
  assumes "outcome_of (checkTradingSignal s0 inp1) = Processed sg lbl"
    and "currentHourlyTimestamp inp2 = currentHourlyTimestamp inp1"
  shows "state_after (checkTradingSignal (state_after (checkTradingSignal s0 inp1)) inp2)
           = state_after (checkTradingSignal s0 inp1)
       \<and> events (checkTradingSignal (state_after (checkTradingSignal s0 inp1)) inp2) = []
       \<and> (outcome_of (checkTradingSignal (state_after (checkTradingSignal s0 inp1)) inp2)
            = AlreadyProcessed
          \<or> outcome_of (checkTradingSignal (state_after (checkTradingSignal s0 inp1)) inp2)
            = NoCredentials)"
proof -
  have l: "lastHourlyTimestamp (state_after (checkTradingSignal s0 inp1))
           = Some (currentHourlyTimestamp inp1)"
    using assms(1)
    by (auto simp: checkTradingSignal_def Let_def split: option.splits if_splits)
  show ?thesis
    unfolding checkTradingSignal_def[of "state_after (checkTradingSignal s0 inp1)" inp2]
    by (simp add: l assms(2))
qed

theorem repeated_tick_is_noop_witness:
  "outcome_of (checkTradingSignal idle_state rising_input) = Processed (Some Entry_long) ''Enter Long''
   \<and> state_after (checkTradingSignal (state_after (checkTradingSignal idle_state rising_input))
        (rising_input\<lparr>recentData := None\<rparr>))
       = \<lparr>lastHourlyTimestamp = Some 3600000, currentPosition = PosLong\<rparr>
   \<and> events (checkTradingSignal (state_after (checkTradingSignal idle_state rising_input))
        (rising_input\<lparr>recentData := None\<rparr>)) = []"
proof -
  have o: "outcome_of (checkTradingSignal idle_state rising_input)
           = Processed (Some Entry_long) ''Enter Long''"
    by (simp add: rising_tick)
  have t: "currentHourlyTimestamp (rising_input\<lparr>recentData := None\<rparr>)
           = currentHourlyTimestamp rising_input"
    by simp
  show ?thesis
    using repeated_tick_is_noop[OF o t] o by (simp add: rising_tick)
qed

text \<open>
  C10. A call that gets past the hourly guard and then fails (the fetch throws, fewer bars
  than the window come back, or the last bar has no z-score or the z-score \<open>NaN\<close>) leaves
  \<^verbatim>\<open>lastHourlyTimestamp\<close> and \<^verbatim>\<open>currentPosition\<close> unchanged, so a later call with
  the same hourly timestamp fetches again.
\<close>

theorem failed_tick_leaves_state:
  assumes "token inp \<noteq> []" "chatId inp \<noteq> []"
    and "lastHourlyTimestamp s = None \<or> (\<exists>l. lastHourlyTimestamp s = Some l \<and> l < currentHourlyTimestamp inp)"
    and "recentData inp = None
         \<or> (\<exists>data. recentData inp = Some data
               \<and> (int (length data) < form_window inp
                  \<or> calculateZScore data (form_window inp) = []
                  \<or> zscore (last (calculateZScore data (form_window inp))) = None
                  \<or> zscore (last (calculateZScore data (form_window inp))) = Some NaN))"
  shows "state_after (checkTradingSignal s inp) = s
       \<and> (\<forall>inp2. token inp2 \<noteq> [] \<and> chatId inp2 \<noteq> []
              \<and> currentHourlyTimestamp inp2 = currentHourlyTimestamp inp
            \<longrightarrow> Fetch \<in> set (events (checkTradingSignal (state_after (checkTradingSignal s inp)) inp2)))"
proof -
  have st: "state_after (checkTradingSignal s inp) = s"
    using assms by (auto simp: checkTradingSignal_def Let_def split: option.splits)
  have "Fetch \<in> set (events (checkTradingSignal s inp2))"
    if "token inp2 \<noteq> []" "chatId inp2 \<noteq> []" "currentHourlyTimestamp inp2 = currentHourlyTimestamp inp"
    for inp2
    using that assms(3) by (auto simp: checkTradingSignal_def Let_def split: option.splits)
  thus ?thesis using st by simp
qed

theorem failed_tick_leaves_state_witness:
  "state_after (checkTradingSignal idle_state nan_input) = idle_state
   \<and> Fetch \<in> set (events (checkTradingSignal (state_after (checkTradingSignal idle_state nan_input))
                            rising_input))
   \<and> state_after (checkTradingSignal idle_state (rising_input\<lparr>recentData := None\<rparr>)) = idle_state
   \<and> state_after (checkTradingSignal idle_state (rising_input\<lparr>form_window := 3\<rparr>)) = idle_state"
proof -
  have a: "state_after (checkTradingSignal idle_state nan_input) = idle_state
       \<and> (\<forall>inp2. token inp2 \<noteq> [] \<and> chatId inp2 \<noteq> []
              \<and> currentHourlyTimestamp inp2 = currentHourlyTimestamp nan_input
            \<longrightarrow> Fetch \<in> set (events (checkTradingSignal
                                       (state_after (checkTradingSignal idle_state nan_input)) inp2)))"
    by (rule failed_tick_leaves_state)
       (simp_all add: nan_input_def rising_input_def idle_state_def nan_zscore)
  have b: "state_after (checkTradingSignal idle_state (rising_input\<lparr>recentData := None\<rparr>)) = idle_state"
    using failed_tick_leaves_state[of "rising_input\<lparr>recentData := None\<rparr>" idle_state]
    by (simp add: rising_input_def idle_state_def)
  have c: "state_after (checkTradingSignal idle_state (rising_input\<lparr>form_window := 3\<rparr>)) = idle_state"
    using failed_tick_leaves_state[of "rising_input\<lparr>form_window := 3\<rparr>" idle_state]
    by (simp add: rising_input_def idle_state_def)
  have "token rising_input \<noteq> [] \<and> chatId rising_input \<noteq> []
        \<and> currentHourlyTimestamp rising_input = currentHourlyTimestamp nan_input"
    by (simp add: nan_input_def rising_input_def)
  with a b c show ?thesis by blast
qed

section \<open>Properties of rounding\<close>

lemma fl_zero [simp]: "fl 0 = Fin 0"
  by (simp add: fl_def)

lemma fl_not_NaN [simp]: "fl r \<noteq> NaN"
  by (simp add: fl_def Let_def)

lemma round_even_close: "\<bar>of_int (round_even x) - x\<bar> \<le> 1 / 2"
  unfolding round_even_def Let_def by (auto; linarith)

lemma round_even_nonpos: "x \<le> 0 \<Longrightarrow> round_even x \<le> 0"
proof -
  assume x: "x \<le> 0"
  have "\<bar>of_int (round_even x) - x\<bar> \<le> 1 / 2" by (rule round_even_close)
  hence "real_of_int (round_even x) \<le> 1 / 2" using x by linarith
  hence "real_of_int (round_even x) < 1" by linarith
  thus ?thesis by linarith
qed

lemma round_even_nonneg: "0 \<le> x \<Longrightarrow> 0 \<le> round_even x"
proof -
  assume x: "0 \<le> x"
  have "\<bar>of_int (round_even x) - x\<bar> \<le> 1 / 2" by (rule round_even_close)
  hence "- 1 / 2 \<le> real_of_int (round_even x)" using x by linarith
  hence "- 1 < real_of_int (round_even x)" by linarith
  thus ?thesis by linarith
qed

lemma powi2_pos [simp]: "(0::real) < 2 powi k"
  by (rule zero_less_power_int) simp

lemma fl_nonpos: "r \<le> 0 \<Longrightarrow> jle (fl r) (Fin 0)"
proof -
  assume r: "r \<le> 0"
  show ?thesis
  proof (cases "r = 0")
    case True
    then show ?thesis by simp
  next
    case False
    define q :: real where "q = 2 powi (max (expo r) (- 1022) - 52)"
    have q: "0 < q" by (simp add: q_def)
    have "r / q \<le> 0" using r q by (simp add: divide_nonpos_pos)
    hence "round_even (r / q) \<le> 0" by (rule round_even_nonpos)
    hence "q * of_int (round_even (r / q)) \<le> 0"
      using q by (simp add: mult_nonneg_nonpos)
    thus ?thesis using False r by (simp add: fl_def Let_def q_def)
  qed
qed

lemma fl_nonneg: "0 \<le> r \<Longrightarrow> jle (Fin 0) (fl r)"
proof -
  assume r: "0 \<le> r"
  show ?thesis
  proof (cases "r = 0")
    case True
    then show ?thesis by simp
  next
    case False
    define q :: real where "q = 2 powi (max (expo r) (- 1022) - 52)"
    have q: "0 < q" by (simp add: q_def)
    have "0 \<le> r / q" using r q by simp
    hence "0 \<le> round_even (r / q)" by (rule round_even_nonneg)
    hence "0 \<le> q * of_int (round_even (r / q))"
      using q by simp
    thus ?thesis using False r by (simp add: fl_def Let_def q_def)
  qed
qed

lemma expo_le:
  assumes "r \<noteq> 0" "\<bar>r\<bar> < 2 powi k"
  shows "expo r < k"
proof (rule ccontr)
  assume "\<not> expo r < k"
  hence "k \<le> expo r" by simp
  hence "(2::real) powi k \<le> 2 powi expo r" by (rule powi2_mono)
  thus False using expo_bounds[OF assms(1)] assms(2) by linarith
qed

lemma fl_finite:
  assumes "\<bar>r\<bar> < 2 powi 1023"
  shows "\<exists>y. fl r = Fin y \<and> \<bar>y\<bar> \<le> 2 * \<bar>r\<bar>"
proof (cases "r = 0")
  case True
  then show ?thesis by simp
next
  case False
  define e where "e = max (expo r) (- 1022)"
  define q :: real where "q = 2 powi (e - 52)"
  define n where "n = round_even (r / q)"
  define y where "y = q * of_int n"
  have q: "0 < q" by (simp add: q_def)
  have e: "e \<le> 1022" using expo_le[OF False assms] by (simp add: e_def)
  have cl: "\<bar>of_int n - r / q\<bar> \<le> 1 / 2" unfolding n_def by (rule round_even_close)
  have "\<bar>q * (of_int n - r / q)\<bar> = q * \<bar>of_int n - r / q\<bar>"
    using q by (simp add: abs_mult)
  also have "\<dots> \<le> q * (1 / 2)" using cl q by (simp only: mult_le_cancel_left_pos)
  finally have "\<bar>q * (of_int n - r / q)\<bar> \<le> q / 2" by simp
  moreover have "q * (of_int n - r / q) = y - r" using q by (simp add: y_def algebra_simps)
  ultimately have d: "\<bar>y - r\<bar> \<le> q / 2" by simp
  have "q \<le> 2 powi 970" unfolding q_def using e by (intro powi2_mono) simp
  hence "\<bar>y\<bar> < 2 powi 1023 + 2 powi 970" using d assms by linarith
  also have "\<dots> \<le> 2 powi 1024" by simp
  finally have fin: "\<bar>y\<bar> < 2 powi 1024" .
  have b: "\<bar>y\<bar> \<le> 2 * \<bar>r\<bar>"
  proof (cases "\<bar>r / q\<bar> < 1 / 2")
    case True
    hence "\<bar>real_of_int n\<bar> < 1" using cl by linarith
    hence "n = 0" by linarith
    thus ?thesis by (simp add: y_def)
  next
    case False
    hence "q / 2 \<le> \<bar>r\<bar>" using q by (simp add: abs_divide field_simps)
    thus ?thesis using d by linarith
  qed
  have "fl r = Fin y"
    using False fin by (simp add: fl_def Let_def y_def n_def q_def e_def)
  thus ?thesis using b by blast
qed

lemma fl_small [simp]:
  "fl 1 = Fin 1" "fl 2 = Fin 2" "fl (- 1) = Fin (- 1)" "fl (- 2) = Fin (- 2)"
  by (simp_all add: fl_eval)

lemma fl_half [simp]: "fl (- (1 / 2)) = Fin (- (1 / 2))" "fl (- (3 / 2)) = Fin (- (3 / 2))"
  by (simp_all add: fl_eval)

lemma fl_lit_1_10: "fl (1 / 10) = Fin (3602879701896397 / 2 ^ 55)"
  by (simp add: fl_eval)

lemma sqrt_9_16: "sqrt (9 / 16) = 3 / 4"
  by (rule real_sqrt_unique) (simp_all add: power2_eq_square)

lemma sqrt_2_m112:
  "sqrt (1 / 5192296858534827628530496329220096) = 1 / 72057594037927936"
  by (rule real_sqrt_unique) (simp_all add: power2_eq_square)

section \<open>The simulation\<close>

declare length_positions [simp] length_generateSignals [simp]

lemma length_running_sum [simp]: "length (running_sum acc xs) = length xs"
  by (induction xs arbitrary: acc) simp_all

lemma running_sum_nth:
  "i < length xs \<Longrightarrow> running_sum acc xs ! i = foldl jadd acc (take (Suc i) xs)"
proof (induction xs arbitrary: acc i)
  case Nil
  then show ?case by simp
next
  case (Cons x xs)
  then show ?case by (cases i) simp_all
qed

lemma length_running_drawdown [simp]: "length (running_drawdown mx cs) = length cs"
  by (induction cs arbitrary: mx) simp_all

lemma running_drawdown_nth:
  "i < length cs \<Longrightarrow>
   running_drawdown mx cs ! i = jsub (cs ! i) (foldl jmax mx (take (Suc i) cs))"
proof (induction cs arbitrary: mx i)
  case Nil
  then show ?case by simp
next
  case (Cons c cs)
  then show ?case by (cases i) simp_all
qed

lemma length_calculateZScore [simp]: "length (calculateZScore data window) = length data"
  by (simp add: calculateZScore_def)

lemma length_backtest [simp]: "length (backtest data window en ex lg sd) = length data"
  by (simp add: backtest_def Let_def)

lemma backtest_nth:
  assumes "i < length data"
  shows "backtest data window en ex lg sd ! i =
     (let df = generateSignals (map with_signal (calculateZScore data window)) en ex lg sd;
          cum = running_sum (Fin 0) (map (pnl_at df) [0..<length data]);
          item = df ! i
      in \<lparr>time = time item, close = close item, mean = mean item, std = std item,
          zscore = zscore item, signal = signal item, pos = pos item,
          priceChange = priceChange_at df i, posPrev = posPrev_at df i,
          trades = trades_at df i, pnl = pnl_at df i,
          cumulativePnl = cum ! i, drawdown = running_drawdown (Fin 0) cum ! i\<rparr>)"
  using assms by (simp add: backtest_def Let_def)

lemma map_pnl_backtest:
  "map pnl (backtest data window en ex lg sd) =
     map (pnl_at (generateSignals (map with_signal (calculateZScore data window)) en ex lg sd))
         [0..<length data]"
  by (simp add: backtest_def Let_def)

lemma map_cumulativePnl_backtest:
  "map cumulativePnl (backtest data window en ex lg sd) =
     running_sum (Fin 0) (map pnl (backtest data window en ex lg sd))"
  unfolding map_pnl_backtest
  by (rule nth_equalityI) (simp_all add: backtest_nth Let_def)

lemma cumulativePnl_backtest:
  assumes "i < length data"
  shows "cumulativePnl (backtest data window en ex lg sd ! i)
         = foldl jadd (Fin 0) (map pnl (take (Suc i) (backtest data window en ex lg sd)))"
proof -
  let ?out = "backtest data window en ex lg sd"
  have "cumulativePnl (?out ! i) = map cumulativePnl ?out ! i" using assms by simp
  also have "\<dots> = foldl jadd (Fin 0) (take (Suc i) (map pnl ?out))"
    unfolding map_cumulativePnl_backtest using assms by (simp add: running_sum_nth)
  finally show ?thesis by (simp add: take_map)
qed

lemma drawdown_backtest:
  assumes "i < length data"
  shows "drawdown (backtest data window en ex lg sd ! i)
         = jsub (cumulativePnl (backtest data window en ex lg sd ! i))
                (running_peak (backtest data window en ex lg sd) i)"
proof -
  let ?out = "backtest data window en ex lg sd"
  let ?df = "generateSignals (map with_signal (calculateZScore data window)) en ex lg sd"
  let ?cum = "running_sum (Fin 0) (map (pnl_at ?df) [0..<length data])"
  have c: "map cumulativePnl ?out = ?cum"
    using map_cumulativePnl_backtest[of data window en ex lg sd] by (simp add: map_pnl_backtest)
  have d: "drawdown (?out ! i) = running_drawdown (Fin 0) ?cum ! i"
    using assms by (simp add: backtest_nth Let_def)
  have r: "running_drawdown (Fin 0) ?cum ! i = jsub (?cum ! i) (foldl jmax (Fin 0) (take (Suc i) ?cum))"
    using assms by (simp add: running_drawdown_nth)
  have n: "?cum ! i = cumulativePnl (?out ! i)"
    using assms by (simp add: backtest_nth Let_def)
  have t: "take (Suc i) ?cum = map cumulativePnl (take (Suc i) ?out)"
    by (simp add: c[symmetric] take_map)
  show ?thesis unfolding d r n t by (simp add: running_peak_def)
qed

lemma rawPosition_range:
  "rawPosition lg sd en ex z = Some p \<Longrightarrow> p = - 1 \<or> p = 0 \<or> p = 1"
  by (auto simp: rawPosition_def Let_def split: option.splits if_splits)

lemma ffill_range:
  assumes "l \<in> S" "\<forall>p. Some p \<in> set ps \<longrightarrow> p \<in> S"
  shows "set (ffill l ps) \<subseteq> S"
  using assms by (induction l ps rule: ffill.induct) auto

lemma positions_range: "set (positions data en ex lg sd) \<subseteq> {- 1, 0, 1}"
  unfolding positions_def
proof (rule ffill_range)
  show "(0::int) \<in> {- 1, 0, 1}" by simp
  show "\<forall>p. Some p \<in> set (map (\<lambda>item. rawPosition lg sd en ex (zscore item)) data)
            \<longrightarrow> p \<in> {- 1, 0, 1}"
    using rawPosition_range by (metis (no_types, lifting) ex_map_conv insert_iff)
qed

lemma pos_generateSignals_range:
  assumes "i < length data"
  shows "pos (generateSignals data en ex lg sd ! i) \<in> {- 1, 0, 1}"
proof -
  have "positions data en ex lg sd ! i \<in> set (positions data en ex lg sd)"
    using assms by simp
  hence "positions data en ex lg sd ! i \<in> {- 1, 0, 1}"
    using positions_range by blast
  thus ?thesis using assms by (simp add: generateSignals_def with_pos_def)
qed

lemma trades_range:
  assumes "a \<in> {- 1, 0, 1}" "b \<in> {- 1, 0, 1::int}"
  shows "jabs (jsub (Fin (of_int a)) (Fin (of_int b))) \<in> {Fin 0, Fin 1, Fin 2}"
  using assms by (auto simp: jsub_def)

lemma foldl_jmax_fin:
  assumes "\<forall>v \<in> set cs. is_fin v"
  shows "\<exists>p. foldl jmax (Fin m) cs = Fin p \<and> m \<le> p \<and> (\<forall>c. Fin c \<in> set cs \<longrightarrow> c \<le> p)"
  using assms
proof (induction cs arbitrary: m)
  case Nil
  then show ?case by simp
next
  case (Cons v cs)
  then obtain c where v: "v = Fin c" by (cases v) (auto simp: is_fin_def)
  have j: "jmax (Fin m) (Fin c) = Fin (max m c)" by (auto simp: jmax_def)
  from Cons.IH[of "max m c"] Cons.prems
  obtain p where "foldl jmax (Fin (max m c)) cs = Fin p" "max m c \<le> p"
    "\<forall>d. Fin d \<in> set cs \<longrightarrow> d \<le> p" by auto
  thus ?case using v j by auto
qed

lemma drawdown_nonpos:
  assumes "\<forall>v \<in> set cs. is_fin v" "cs \<noteq> []"
  shows "jle (jsub (last cs) (foldl jmax (Fin 0) cs)) (Fin 0)"
proof -
  obtain p where p: "foldl jmax (Fin 0) cs = Fin p" "\<forall>c. Fin c \<in> set cs \<longrightarrow> c \<le> p"
    using foldl_jmax_fin[OF assms(1), of 0] by blast
  have l: "last cs \<in> set cs" using assms(2) by simp
  hence "is_fin (last cs)" using assms(1) by blast
  then obtain c where c0: "last cs = Fin c" by (cases "last cs") (auto simp: is_fin_def)
  have c: "last cs = Fin c" "Fin c \<in> set cs" using c0 l by simp_all
  hence "c - p \<le> 0" using p by simp
  hence "jle (fl (c + - p)) (Fin 0)" by (intro fl_nonpos) simp
  thus ?thesis by (simp add: c p jsub_def)
qed

lemma peak_mono:
  assumes "\<forall>v \<in> set cs. is_fin v" "is_fin c"
  shows "jle (foldl jmax (Fin 0) cs) (foldl jmax (Fin 0) (cs @ [c]))"
proof -
  obtain p where p: "foldl jmax (Fin 0) cs = Fin p"
    using foldl_jmax_fin[OF assms(1), of 0] by blast
  obtain x where x: "c = Fin x" using assms(2) by (cases c) (auto simp: is_fin_def)
  show ?thesis by (simp add: p x jmax_def)
qed

lemma pos_backtest:
  assumes "i < length data"
  shows "pos (backtest data window en ex lg sd ! i)
         = pos (generateSignals (map with_signal (calculateZScore data window)) en ex lg sd ! i)"
  using assms by (simp add: backtest_nth Let_def)

lemma falling_zscore:
  "calculateZScore falling_data 2
   = [\<lparr>time = Fin 0, close = Fin 1, mean = None, std = None, zscore = None\<rparr>,
      \<lparr>time = Fin 3600000, close = Fin 3, mean = Some (Fin 2), std = Some (Fin 1),
       zscore = Some (Fin 1)\<rparr>,
      \<lparr>time = Fin 7200000, close = Fin (3 / 2), mean = Some (Fin (9 / 4)), std = Some (Fin (3 / 4)),
       zscore = Some (Fin (- 1))\<rparr>]"
  by (simp add: calculateZScore_def zscore_at_def slice_def upt_conv_Cons jsub_def jpow2_def
      falling_data_def sqrt_9_16 fl_eval)

lemma falling_signals:
  "generateSignals (map with_signal (calculateZScore falling_data 2))
     (Fin (1 / 2)) (Fin (- (1 / 2))) Trend Both
   = [\<lparr>time = Fin 0, close = Fin 1, mean = None, std = None, zscore = None, signal = None, pos = 0\<rparr>,
      \<lparr>time = Fin 3600000, close = Fin 3, mean = Some (Fin 2), std = Some (Fin 1),
       zscore = Some (Fin 1), signal = Some (Fin 1), pos = 1\<rparr>,
      \<lparr>time = Fin 7200000, close = Fin (3 / 2), mean = Some (Fin (9 / 4)), std = Some (Fin (3 / 4)),
       zscore = Some (Fin (- 1)), signal = Some (Fin (- 1)), pos = - 1\<rparr>]"
  by (simp add: falling_zscore generateSignals_def positions_def rawPosition_def with_pos_def
      with_signal_def upt_conv_Cons)

lemma falling_backtest:
  "map pos (backtest falling_data 2 (Fin (1 / 2)) (Fin (- (1 / 2))) Trend Both) = [0, 1, - 1]
   \<and> map pnl (backtest falling_data 2 (Fin (1 / 2)) (Fin (- (1 / 2))) Trend Both)
       = [Fin 0, Fin 0, Fin (- (1 / 2))]
   \<and> map cumulativePnl (backtest falling_data 2 (Fin (1 / 2)) (Fin (- (1 / 2))) Trend Both)
       = [Fin 0, Fin 0, Fin (- (1 / 2))]
   \<and> map drawdown (backtest falling_data 2 (Fin (1 / 2)) (Fin (- (1 / 2))) Trend Both)
       = [Fin 0, Fin 0, Fin (- (1 / 2))]"
  by (simp add: backtest_def falling_signals upt_conv_Cons jsub_def
      priceChange_at_def posPrev_at_def trades_at_def pnl_at_def jmax_def)

lemma zero_price_zscore:
  "calculateZScore zero_price_data 3
   = [\<lparr>time = Fin 0, close = Fin 0, mean = None, std = None, zscore = None\<rparr>,
      \<lparr>time = Fin 3600000, close = Fin 1, mean = None, std = None, zscore = None\<rparr>]"
  by (simp add: calculateZScore_def zscore_at_def upt_conv_Cons zero_price_data_def)

lemma zero_price_signals:
  "generateSignals (map with_signal (calculateZScore zero_price_data 3))
     (Fin 1) (Fin (- 1)) Trend Long
   = [\<lparr>time = Fin 0, close = Fin 0, mean = None, std = None, zscore = None, signal = None, pos = 0\<rparr>,
      \<lparr>time = Fin 3600000, close = Fin 1, mean = None, std = None, zscore = None, signal = None,
       pos = 0\<rparr>]"
  by (simp add: zero_price_zscore generateSignals_def positions_def rawPosition_def with_pos_def
      with_signal_def upt_conv_Cons)

lemma zero_price_backtest:
  "map drawdown (backtest zero_price_data 3 (Fin 1) (Fin (- 1)) Trend Long) = [Fin 0, NaN]"
  by (simp add: backtest_def zero_price_signals upt_conv_Cons jsub_def
      priceChange_at_def posPrev_at_def trades_at_def pnl_at_def jmax_def signed_inf_def)

text \<open>
  C6, as the code has it. On every bar of the backtest output the position is -1, 0 or 1;
  \<open>posPrev\<close> is the position of the bar before (0 on the first bar) and
  \<open>trades = \<bar>posPrev - pos\<bar>\<close> is 0, 1 or 2; \<open>cumulativePnl\<close> is the sum of the
  \<open>pnl\<close> values up to the bar, added from left to right starting at 0; \<open>drawdown\<close> is
  \<open>cumulativePnl\<close> minus the running peak, the \<^verbatim>\<open>Math.max\<close> of 0 and the
  \<open>cumulativePnl\<close> values up to the bar; the first bar's drawdown is
  \<open>min(0, pnl)\<close>. Where every \<open>cumulativePnl\<close> up to the bar is a finite number, the
  drawdown is at most 0 and the running peak is not below the one of the bar before.
\<close>

theorem backtest_invariants:
  assumes "i < length data"
  shows "pos (backtest data window en ex lg sd ! i) \<in> {- 1, 0, 1}
     \<and> posPrev (backtest data window en ex lg sd ! i)
         = (if i = 0 then 0 else pos (backtest data window en ex lg sd ! (i - 1)))
     \<and> trades (backtest data window en ex lg sd ! i)
         = jabs (jsub (Fin (of_int (posPrev (backtest data window en ex lg sd ! i))))
                      (Fin (of_int (pos (backtest data window en ex lg sd ! i)))))
     \<and> trades (backtest data window en ex lg sd ! i) \<in> {Fin 0, Fin 1, Fin 2}
     \<and> cumulativePnl (backtest data window en ex lg sd ! i)
         = foldl jadd (Fin 0) (map pnl (take (Suc i) (backtest data window en ex lg sd)))
     \<and> drawdown (backtest data window en ex lg sd ! i)
         = jsub (cumulativePnl (backtest data window en ex lg sd ! i))
                (running_peak (backtest data window en ex lg sd) i)
     \<and> drawdown (backtest data window en ex lg sd ! 0)
         = jmin (Fin 0) (pnl (backtest data window en ex lg sd ! 0))
     \<and> ((\<forall>j \<le> i. is_fin (cumulativePnl (backtest data window en ex lg sd ! j)))
          \<longrightarrow> jle (drawdown (backtest data window en ex lg sd ! i)) (Fin 0)
              \<and> (0 < i \<longrightarrow> jle (running_peak (backtest data window en ex lg sd) (i - 1))
                                  (running_peak (backtest data window en ex lg sd) i)))"
proof -
  let ?out = "backtest data window en ex lg sd"
  let ?df = "generateSignals (map with_signal (calculateZScore data window)) en ex lg sd"
  have len: "length ?df = length data" by simp
  have rng: "pos (?df ! j) \<in> {- 1, 0, 1}" if "j < length data" for j
    using that pos_generateSignals_range[of j "map with_signal (calculateZScore data window)"]
    by simp
  have p1: "pos (?out ! i) \<in> {- 1, 0, 1}"
    using rng[OF assms] assms by (simp add: pos_backtest)
  have i1: "i - 1 < length data" using assms by simp
  have p2: "posPrev (?out ! i) = (if i = 0 then 0 else pos (?out ! (i - 1)))"
    using assms i1 by (simp add: backtest_nth Let_def posPrev_at_def)
  have p3: "trades (?out ! i)
         = jabs (jsub (Fin (of_int (posPrev (?out ! i)))) (Fin (of_int (pos (?out ! i)))))"
    using assms by (simp add: backtest_nth Let_def trades_at_def)
  have pp: "posPrev (?out ! i) \<in> {- 1, 0, 1}"
  proof (cases "i = 0")
    case True
    then show ?thesis using p2 by simp
  next
    case False
    hence "posPrev (?out ! i) = pos (?df ! (i - 1))" using p2 i1 by (simp add: pos_backtest)
    thus ?thesis using rng[OF i1] by simp
  qed
  have p4: "trades (?out ! i) \<in> {Fin 0, Fin 1, Fin 2}"
    unfolding p3 using pp p1 by (rule trades_range)
  have p5: "cumulativePnl (?out ! i) = foldl jadd (Fin 0) (map pnl (take (Suc i) ?out))"
    using assms by (rule cumulativePnl_backtest)
  have p6: "drawdown (?out ! i) = jsub (cumulativePnl (?out ! i)) (running_peak ?out i)"
    using assms by (rule drawdown_backtest)
  have z: "0 < length data" using assms by (cases data) simp_all
  have pnl0: "pnl (?out ! 0) = Fin 0"
    using z by (simp add: backtest_nth Let_def pnl_at_def posPrev_at_def priceChange_at_def)
  have cum0: "cumulativePnl (?out ! 0) = Fin 0"
    using cumulativePnl_backtest[OF z, of window en ex lg sd] z pnl0
    by (simp add: take_Suc_conv_app_nth)
  have p7: "drawdown (?out ! 0) = jmin (Fin 0) (pnl (?out ! 0))"
    using drawdown_backtest[OF z, of window en ex lg sd] z
    by (simp add: cum0 pnl0 running_peak_def take_Suc_conv_app_nth jmax_def jmin_def jsub_def)
  have p8: "jle (drawdown (?out ! i)) (Fin 0)
            \<and> (0 < i \<longrightarrow> jle (running_peak ?out (i - 1)) (running_peak ?out i))"
    if fin: "\<forall>j \<le> i. is_fin (cumulativePnl (?out ! j))"
  proof
    let ?cs = "map cumulativePnl (take (Suc i) ?out)"
    have a: "\<forall>v \<in> set ?cs. is_fin v"
    proof
      fix v assume "v \<in> set ?cs"
      then obtain j where "j < length ?cs" "v = ?cs ! j" by (metis in_set_conv_nth)
      thus "is_fin v" using fin assms by simp
    qed
    have "length ?cs = Suc i" using assms by simp
    hence ne: "?cs \<noteq> []" by (metis length_0_conv nat.distinct(1))
    have "last ?cs = ?cs ! (length ?cs - 1)" using ne by (rule last_conv_nth)
    hence l: "last ?cs = cumulativePnl (?out ! i)" using assms by simp
    show "jle (drawdown (?out ! i)) (Fin 0)"
      using drawdown_nonpos[OF a ne] by (simp only: l p6 running_peak_def)
    show "0 < i \<longrightarrow> jle (running_peak ?out (i - 1)) (running_peak ?out i)"
    proof
      assume i0: "0 < i"
      then obtain k where k: "i = Suc k" by (cases i) auto
      let ?ds = "map cumulativePnl (take (Suc k) ?out)"
      have b: "\<forall>v \<in> set ?ds. is_fin v"
      proof
        fix v assume "v \<in> set ?ds"
        then obtain j where "j < length ?ds" "v = ?ds ! j" by (metis in_set_conv_nth)
        thus "is_fin v" using fin assms k by simp
      qed
      have c: "is_fin (cumulativePnl (?out ! i))" using fin by simp
      have "?cs = ?ds @ [cumulativePnl (?out ! i)]"
        using assms k by (simp add: take_Suc_conv_app_nth[of "Suc k"])
      thus "jle (running_peak ?out (i - 1)) (running_peak ?out i)"
        using peak_mono[OF b c] k by (simp add: running_peak_def)
    qed
  qed
  show ?thesis using p1 p2 p3 p4 p5 p6 p7 p8 by blast
qed

theorem backtest_invariants_witness:
  "is_fin (cumulativePnl (backtest falling_data 2 (Fin (1 / 2)) (Fin (- (1 / 2))) Trend Both ! 0))
   \<and> is_fin (cumulativePnl (backtest falling_data 2 (Fin (1 / 2)) (Fin (- (1 / 2))) Trend Both ! 1))
   \<and> is_fin (cumulativePnl (backtest falling_data 2 (Fin (1 / 2)) (Fin (- (1 / 2))) Trend Both ! 2))
   \<and> drawdown (backtest falling_data 2 (Fin (1 / 2)) (Fin (- (1 / 2))) Trend Both ! 2) = Fin (- (1 / 2))
   \<and> jle (drawdown (backtest falling_data 2 (Fin (1 / 2)) (Fin (- (1 / 2))) Trend Both ! 2)) (Fin 0)
   \<and> jle (running_peak (backtest falling_data 2 (Fin (1 / 2)) (Fin (- (1 / 2))) Trend Both) 1)
          (running_peak (backtest falling_data 2 (Fin (1 / 2)) (Fin (- (1 / 2))) Trend Both) 2)"
proof -
  let ?out = "backtest falling_data 2 (Fin (1 / 2)) (Fin (- (1 / 2))) Trend Both"
  have len: "(2::nat) < length falling_data" by (simp add: falling_data_def)
  have c: "map cumulativePnl ?out = [Fin 0, Fin 0, Fin (- (1 / 2))]"
    and d: "map drawdown ?out = [Fin 0, Fin 0, Fin (- (1 / 2))]"
    using falling_backtest by simp_all
  have l3: "length ?out = 3" by (simp add: falling_data_def)
  have cn: "cumulativePnl (?out ! j) = [Fin 0, Fin 0, Fin (- (1 / 2))] ! j" if "j \<le> 2" for j
  proof -
    have "j < length ?out" using that l3 by simp
    hence "cumulativePnl (?out ! j) = map cumulativePnl ?out ! j" by simp
    thus ?thesis by (simp only: c)
  qed
  have fin: "\<forall>j \<le> 2. is_fin (cumulativePnl (?out ! j))"
  proof (intro allI impI)
    fix j :: nat assume j: "j \<le> 2"
    hence "j = 0 \<or> j = 1 \<or> j = 2" by linarith
    thus "is_fin (cumulativePnl (?out ! j))" using cn[OF j] by (auto simp: is_fin_def)
  qed
  have "map drawdown ?out ! 2 = Fin (- (1 / 2))" by (simp add: d)
  hence dd: "drawdown (?out ! 2) = Fin (- (1 / 2))" using len by simp
  note inst = backtest_invariants[OF len, of 2 "Fin (1 / 2)" "Fin (- (1 / 2))" Trend Both]
  from inst fin have a: "jle (drawdown (?out ! 2)) (Fin 0)" by blast
  from inst fin have "(0::nat) < 2 \<longrightarrow> jle (running_peak ?out (2 - 1)) (running_peak ?out 2)"
    by blast
  hence b: "jle (running_peak ?out 1) (running_peak ?out 2)" by simp
  have "is_fin (cumulativePnl (?out ! 0))" "is_fin (cumulativePnl (?out ! 1))"
    "is_fin (cumulativePnl (?out ! 2))"
    using fin by simp_all
  thus ?thesis using dd a b by blast
qed

text \<open>
  C6 as stated fails for a series with a zero price: for the closes 0, 1 the price change of
  the second bar is \<open>1 / 0 = Infinity\<close>, its \<open>pnl\<close> is \<open>0 * Infinity = NaN\<close>, and so is
  its drawdown, which is not at most 0.
\<close>

theorem drawdown_not_always_nonpositive:
  "drawdown (backtest zero_price_data 3 (Fin 1) (Fin (- 1)) Trend Long ! 1) = NaN
   \<and> jle (drawdown (backtest zero_price_data 3 (Fin 1) (Fin (- 1)) Trend Long ! 1)) (Fin 0) = False"
proof -
  have "map drawdown (backtest zero_price_data 3 (Fin 1) (Fin (- 1)) Trend Long) ! 1 = NaN"
    by (simp add: zero_price_backtest)
  moreover have "(1::nat) < length (backtest zero_price_data 3 (Fin 1) (Fin (- 1)) Trend Long)"
    by (simp add: zero_price_data_def)
  ultimately have "drawdown (backtest zero_price_data 3 (Fin 1) (Fin (- 1)) Trend Long ! 1) = NaN"
    by simp
  thus ?thesis by simp
qed

section \<open>The rolling statistics\<close>

lemma tenth_zscore:
  "zscore_at tenth_data 3 2 =
     \<lparr>time = Fin 7200000, close = Fin (3602879701896397 / 2 ^ 55),
      mean = Some (Fin (7205759403792795 / 2 ^ 56)), std = Some (Fin (1 / 2 ^ 56)),
      zscore = Some (Fin (- 1))\<rparr>"
  by (simp add: zscore_at_def slice_def jsub_def jpow2_def tenth_data_def fl_lit_1_10
      sqrt_2_m112 fl_eval)

lemma slice_window:
  assumes "1 \<le> window" "window - 1 \<le> int i" "i < length data"
  shows "slice data (int i - window + 1) (int i + 1)
         = take (nat window) (drop (Suc i - nat window) data)"
proof -
  have a: "nat (int i - window + 1) = Suc i - nat window" using assms by linarith
  have b: "nat (int i + 1 - (int i - window + 1)) = nat window" by simp
  have c: "\<not> int i - window + 1 < 0" using assms by simp
  have d: "min (int i - window + 1) (int (length data)) = int i - window + 1"
    using assms by simp
  have e: "min (int i + 1) (int (length data)) = int i + 1" using assms by simp
  have f: "\<not> int i + 1 < 0" by simp
  show ?thesis unfolding slice_def Let_def by (simp only: c d e f if_False a b)
qed

lemma foldl_zero_sum:
  assumes "\<forall>v \<in> set w. v = Fin c"
  shows "foldl (\<lambda>sum val. jadd sum (jpow2 (jsub val (Fin c)))) (Fin 0) w = Fin 0"
  using assms by (induction w) (simp_all add: jsub_def jpow2_def)

text \<open>
  What \<^verbatim>\<open>calculateZScore\<close> does compute. For a window of at least 1 it keeps the
  length of the series; at an index below \<open>window - 1\<close> the mean, the standard deviation and
  the z-score are \<^verbatim>\<open>null\<close>; at any other index they are the rounded mean of the closes
  at \<open>[i - window + 1, i]\<close>, the rounded population standard deviation (denominator
  \<open>window\<close>) around that mean, and \<open>(close - mean) / std\<close>, or 0 when the standard deviation
  is 0, so that no division by zero happens. On a constant-price series a bar with full
  history has standard deviation 0 and z-score 0 whenever its computed mean equals the
  price.
\<close>

lemma calculateZScore_spec:
  assumes "1 \<le> window" "i < length data"
  shows "length (calculateZScore data window) = length data
     \<and> (int i < window - 1 \<longrightarrow>
          mean (calculateZScore data window ! i) = None
          \<and> std (calculateZScore data window ! i) = None
          \<and> zscore (calculateZScore data window ! i) = None)
     \<and> (window - 1 \<le> int i \<longrightarrow>
          (let w = map close (take (nat window) (drop (Suc i - nat window) data));
               m = jdiv (foldl jadd (Fin 0) w) (Fin (of_int window));
               v = jdiv (foldl (\<lambda>sum val. jadd sum (jpow2 (jsub val m))) (Fin 0) w)
                        (Fin (of_int window));
               s = jsqrt v
           in mean (calculateZScore data window ! i) = Some m
              \<and> std (calculateZScore data window ! i) = Some s
              \<and> zscore (calculateZScore data window ! i)
                  = Some (if s = Fin 0 then Fin 0 else jdiv (jsub (close (data ! i)) m) s)))
     \<and> ((\<forall>b \<in> set data. close b = Fin c) \<and> window - 1 \<le> int i
          \<and> mean (calculateZScore data window ! i) = Some (Fin c)
          \<longrightarrow> std (calculateZScore data window ! i) = Some (Fin 0)
              \<and> zscore (calculateZScore data window ! i) = Some (Fin 0))"
proof -
  let ?r = "calculateZScore data window ! i"
  have r: "?r = zscore_at data window i"
    using assms(2) by (simp add: calculateZScore_def)
  have p1: "length (calculateZScore data window) = length data" by simp
  have p2: "mean ?r = None \<and> std ?r = None \<and> zscore ?r = None" if "int i < window - 1"
    using that by (simp add: r zscore_at_def Let_def)
  define w where "w = map close (take (nat window) (drop (Suc i - nat window) data))"
  define m where "m = jdiv (foldl jadd (Fin 0) w) (Fin (of_int window))"
  define v where "v = jdiv (foldl (\<lambda>sum val. jadd sum (jpow2 (jsub val m))) (Fin 0) w)
                        (Fin (of_int window))"
  define s where "s = jsqrt v"
  have p3: "mean ?r = Some m \<and> std ?r = Some s
            \<and> zscore ?r = Some (if s = Fin 0 then Fin 0 else jdiv (jsub (close (data ! i)) m) s)"
    if ge: "window - 1 \<le> int i"
  proof -
    have "\<not> int i < window - 1" using ge by simp
    thus ?thesis
      unfolding r zscore_at_def Let_def slice_window[OF assms(1) ge assms(2)]
      by (simp add: w_def m_def v_def s_def)
  qed
  have p4: "std ?r = Some (Fin 0) \<and> zscore ?r = Some (Fin 0)"
    if cst: "\<forall>b \<in> set data. close b = Fin c" and ge: "window - 1 \<le> int i"
      and mn: "mean ?r = Some (Fin c)"
  proof -
    have mc: "m = Fin c" using p3[OF ge] mn by simp
    have "set (take (nat window) (drop (Suc i - nat window) data)) \<subseteq> set data"
      by (meson set_drop_subset set_take_subset subset_trans)
    hence "\<forall>x \<in> set w. x = Fin c" using cst by (auto simp: w_def)
    hence "foldl (\<lambda>sum val. jadd sum (jpow2 (jsub val (Fin c)))) (Fin 0) w = Fin 0"
      by (rule foldl_zero_sum)
    hence "v = Fin 0" using assms(1) by (simp add: v_def mc)
    hence "s = Fin 0" by (simp add: s_def)
    thus ?thesis using p3[OF ge] by simp
  qed
  show ?thesis
    using p1 p2 p3 p4 unfolding w_def m_def v_def s_def Let_def by blast
qed

lemma calculateZScore_spec_example:
  "(1::int) \<le> 2 \<and> (1::nat) < length flat_data \<and> map close flat_data = [Fin 1, Fin 1]
   \<and> zscore (calculateZScore flat_data 2 ! 0) = None
   \<and> mean (calculateZScore flat_data 2 ! 1) = Some (Fin 1)
   \<and> std (calculateZScore flat_data 2 ! 1) = Some (Fin 0)
   \<and> zscore (calculateZScore flat_data 2 ! 1) = Some (Fin 0)"
proof -
  have w: "(1::int) \<le> 2" by simp
  have l0: "(0::nat) < length flat_data" and l1: "(1::nat) < length flat_data"
    by (simp_all add: flat_data_def)
  have cst: "\<forall>b \<in> set flat_data. close b = Fin 1" by (simp add: flat_data_def)
  have z0: "zscore (calculateZScore flat_data 2 ! 0) = None"
    using calculateZScore_spec[OF w l0, of 1] by simp
  note s1 = calculateZScore_spec[OF w l1, of 1]
  have m1: "mean (calculateZScore flat_data 2 ! 1) = Some (Fin 1)"
    using s1 by (simp add: Let_def flat_data_def)
  have "std (calculateZScore flat_data 2 ! 1) = Some (Fin 0)
        \<and> zscore (calculateZScore flat_data 2 ! 1) = Some (Fin 0)"
    using s1 cst m1 by simp
  moreover have "map close flat_data = [Fin 1, Fin 1]" by (simp add: flat_data_def)
  ultimately show ?thesis using w l1 z0 m1 by blast
qed

text \<open>
  C3. On a constant-price series every bar with full window history should get standard
  deviation 0 and z-score 0, and the guard \<^verbatim>\<open>std !== 0 ? ... : 0\<close> is there for that
  window. The code misses it when the mean is not computed exactly: three closes 0.1 with
  window 3 sum to 0.30000000000000004, the mean is 0.10000000000000002, one unit in the last
  place above the price, the standard deviation is \<open>2 powi -56\<close> instead of 0, and the
  z-score is -1 instead of 0.
\<close>

theorem constant_series_nonzero_std:
  "map close tenth_data = [fl (1 / 10), fl (1 / 10), fl (1 / 10)]
   \<and> std (calculateZScore tenth_data 3 ! 2) = Some (Fin (1 / 2 ^ 56))
   \<and> zscore (calculateZScore tenth_data 3 ! 2) = Some (Fin (- 1))"
proof -
  have "(2::nat) < length tenth_data" by (simp add: tenth_data_def)
  hence "calculateZScore tenth_data 3 ! 2 = zscore_at tenth_data 3 2"
    unfolding calculateZScore_def by (simp add: numeral_2_eq_2)
  thus ?thesis by (simp add: tenth_zscore) (simp add: tenth_data_def)
qed

section \<open>The metrics of a series shorter than the window\<close>

lemma price_change_finite:
  assumes "price_in_range (Fin a)" "price_in_range (Fin b)"
  shows "\<exists>x. jdiv (jsub (Fin a) (Fin b)) (Fin b) = Fin x"
proof -
  have a: "\<bar>a\<bar> \<le> 2 powi 500" and b: "2 powi (- 500) \<le> \<bar>b\<bar>" "\<bar>b\<bar> \<le> 2 powi 500"
    using assms by (simp_all add: price_in_range_def)
  have "\<bar>a + - b\<bar> \<le> 2 powi 500 + 2 powi 500" using a b by linarith
  also have "\<dots> = 2 powi 501" by simp
  finally have ab: "\<bar>a + - b\<bar> \<le> 2 powi 501" .
  have "(2::real) powi 501 < 2 powi 1023" by simp
  hence "\<bar>a + - b\<bar> < 2 powi 1023" using ab by linarith
  then obtain d where d: "fl (a + - b) = Fin d" "\<bar>d\<bar> \<le> 2 * \<bar>a + - b\<bar>"
    using fl_finite by blast
  have dd: "\<bar>d\<bar> \<le> 2 powi 502" using d(2) ab by simp
  have b0: "b \<noteq> 0" using b(1) by auto
  have bpos: "0 < \<bar>b\<bar>" using b0 by simp
  have "\<bar>d / b\<bar> = \<bar>d\<bar> / \<bar>b\<bar>" by simp
  also have "\<dots> \<le> 2 powi 502 / \<bar>b\<bar>" using dd bpos by (simp add: divide_right_mono)
  also have "\<dots> \<le> 2 powi 502 / 2 powi (- 500)"
    using b(1) by (intro divide_left_mono) simp_all
  also have "\<dots> = 2 powi 1002" by simp
  finally have "\<bar>d / b\<bar> \<le> 2 powi 1002" .
  moreover have "(2::real) powi 1002 < 2 powi 1023" by simp
  ultimately have "\<bar>d / b\<bar> < 2 powi 1023" by linarith
  then obtain x where "fl (d / b) = Fin x" using fl_finite by blast
  thus ?thesis using d(1) b0 by (simp add: jsub_def)
qed

lemma jadd_zero [simp]: "jadd (Fin 0) (Fin 0) = Fin 0"
  by simp

lemma foldl_jadd_zeros:
  "\<forall>v \<in> set xs. v = Fin 0 \<Longrightarrow> foldl jadd (Fin 0) xs = Fin 0"
  by (induction xs) simp_all

lemma foldl_trades_zeros:
  "\<forall>b \<in> set df. trades b = Fin 0 \<Longrightarrow>
   foldl (\<lambda>sum item. jadd sum (trades item)) (Fin 0) df = Fin 0"
  by (induction df) simp_all

lemma foldl_jmin_zeros:
  "\<forall>v \<in> set xs. v = Fin 0 \<Longrightarrow> foldl jmin (Fin 0) xs = Fin 0"
  by (induction xs) (simp_all add: jmin_def)

lemma jmin_list_zeros:
  assumes "xs \<noteq> []" "\<forall>v \<in> set xs. v = Fin 0"
  shows "jmin_list xs = Fin 0"
proof -
  obtain y ys where xs: "xs = y # ys" using assms(1) by (cases xs) auto
  hence "y = Fin 0" "\<forall>v \<in> set ys. v = Fin 0" using assms(2) by auto
  thus ?thesis by (simp add: jmin_list_def xs jmin_def foldl_jmin_zeros)
qed

lemma tradeEnds_flat:
  "\<forall>b \<in> set df. pos b = 0 \<Longrightarrow> tradeEnds_from 0 i df = []"
  by (induction df arbitrary: i) simp_all

lemma toFixedNumber_zero [simp]: "toFixedNumber d (Fin 0) = Fin 0"
  by simp

lemma annualizer_fin: "\<exists>a. annualizer_of interval = Fin a"
  by (simp add: annualizer_of_def)

lemma metrics_of_flat:
  assumes ne: "df \<noteq> []"
    and flat: "\<forall>b \<in> set df. pnl b = Fin 0 \<and> cumulativePnl b = Fin 0 \<and> drawdown b = Fin 0
                 \<and> trades b = Fin 0 \<and> pos b = 0"
    and short: "int (length df) \<le> window"
  shows "calculateAllMetrics (annualizer_of interval) df window =
     (case timeClip (time (df ! 0)) of
        None \<Rightarrow> Inl RangeError
      | Some st \<Rightarrow>
          (case timeClip (time (df ! (length df - 1))) of
             None \<Rightarrow> Inl RangeError
           | Some en \<Rightarrow>
               Inr (emptyMetrics\<lparr>Start_Date := date_label st, End_Date := date_label en,
                      Period_days := jfloor (jdiv (jsub (Fin (of_int en)) (Fin (of_int st)))
                                                  (Fin 86400000))\<rparr>)))"
proof -
  have v: "filter (\<lambda>item. pnl item \<noteq> NaN) df = df"
    using flat by (simp add: filter_id_conv)
  have len: "0 < length df" using ne by simp
  have s1: "foldl jadd (Fin 0) (map pnl df) = Fin 0"
    using flat by (intro foldl_jadd_zeros) auto
  have s2: "foldl (\<lambda>sum val. jadd sum (jpow2 (jsub val (Fin 0)))) (Fin 0) (map pnl df) = Fin 0"
    using flat by (intro foldl_zero_sum) auto
  have s3: "jmin_list (map drawdown df) = Fin 0"
    using flat ne by (intro jmin_list_zeros) auto
  have s4: "foldl (\<lambda>sum item. jadd sum (trades item)) (Fin 0) df = Fin 0"
    using flat by (intro foldl_trades_zeros) auto
  have s5: "calculateWinRate df = Fin 0"
    using flat by (simp add: calculateWinRate_def tradeEnds_flat)
  have "df ! (length df - Suc 0) \<in> set df" using len by simp
  hence s6: "cumulativePnl (df ! (length df - Suc 0)) = Fin 0"
    using flat by blast
  obtain a where a: "annualizer_of interval = Fin a" using annualizer_fin by blast
  have s7: "\<not> 0 < int (length df) - window" using short by simp
  show ?thesis
    unfolding calculateAllMetrics_def v Let_def
    using len
    by (simp add: s1 s2 s3 s4 s5 s6 s7 a emptyMetrics_def date_value_def
        split: option.splits)
qed

lemma ffill_all_None:
  "\<forall>x \<in> set ps. x = None \<Longrightarrow> ffill l ps = replicate (length ps) l"
  by (induction l ps rule: ffill.induct) simp_all

lemma rawPosition_None [simp]: "rawPosition lg sd en ex None = None"
  by (simp add: rawPosition_def)

lemma short_zscore:
  assumes "int (length data) < window" "j < length data"
  shows "calculateZScore data window ! j
         = \<lparr>time = time (data ! j), close = close (data ! j), mean = None, std = None,
            zscore = None\<rparr>"
proof -
  have "int j < window - 1" using assms by linarith
  thus ?thesis using assms(2) by (simp add: calculateZScore_def zscore_at_def Let_def)
qed

lemma short_positions:
  assumes "int (length data) < window"
  shows "positions (map with_signal (calculateZScore data window)) en ex lg sd
         = replicate (length data) 0"
proof -
  let ?ps = "map (\<lambda>item. rawPosition lg sd en ex (zscore item))
               (map with_signal (calculateZScore data window))"
  have "\<forall>x \<in> set ?ps. x = None"
  proof
    fix x assume "x \<in> set ?ps"
    then obtain j where j: "j < length ?ps" "x = ?ps ! j" by (metis in_set_conv_nth)
    hence "j < length data" by simp
    thus "x = None" using j short_zscore[OF assms] by (simp add: with_signal_def)
  qed
  hence "ffill 0 ?ps = replicate (length ?ps) 0" by (rule ffill_all_None)
  thus ?thesis by (simp add: positions_def)
qed

lemma short_signals:
  assumes "int (length data) < window" "j < length data"
  shows "generateSignals (map with_signal (calculateZScore data window)) en ex lg sd ! j
         = \<lparr>time = time (data ! j), close = close (data ! j), mean = None, std = None,
            zscore = None, signal = None, pos = 0\<rparr>"
  using assms(2) short_zscore[OF assms]
  by (simp add: generateSignals_def short_positions[OF assms(1)] with_pos_def with_signal_def)

lemma short_pnl:
  assumes "int (length data) < window" "j < length data"
    and "\<forall>b \<in> set data. price_in_range (close b)"
  shows "pnl_at (generateSignals (map with_signal (calculateZScore data window)) en ex lg sd) j
         = Fin 0"
proof -
  let ?df = "generateSignals (map with_signal (calculateZScore data window)) en ex lg sd"
  have pp: "posPrev_at ?df j = 0"
    using assms(2) short_signals[OF assms(1), of "j - 1"] by (simp add: posPrev_at_def)
  have "\<exists>x. priceChange_at ?df j = Fin x"
  proof (cases "j = 0")
    case True
    then show ?thesis by (simp add: priceChange_at_def)
  next
    case False
    have j1: "j - 1 < length data" using assms(2) by simp
    have "price_in_range (close (data ! j))" "price_in_range (close (data ! (j - 1)))"
      using assms(2,3) j1 by (simp_all)
    then obtain a b where ab: "close (data ! j) = Fin a" "close (data ! (j - 1)) = Fin b"
      by (cases "close (data ! j)"; cases "close (data ! (j - 1))")
         (auto simp: price_in_range_def)
    have "price_in_range (Fin a)" "price_in_range (Fin b)"
      using assms(2,3) j1 ab by (metis nth_mem)+
    hence "\<exists>x. jdiv (jsub (Fin a) (Fin b)) (Fin b) = Fin x" by (rule price_change_finite)
    thus ?thesis
      using False short_signals[OF assms(1,2)] short_signals[OF assms(1) j1] ab
      by (simp add: priceChange_at_def)
  qed
  thus ?thesis using pp by (auto simp: pnl_at_def)
qed

lemma short_trades:
  assumes "int (length data) < window" "j < length data"
  shows "trades_at (generateSignals (map with_signal (calculateZScore data window)) en ex lg sd) j
         = Fin 0"
  using assms(2) short_signals[OF assms(1), of "j - 1"] short_signals[OF assms]
  by (simp add: trades_at_def posPrev_at_def jsub_def)

lemma foldl_jmax_zeros:
  "\<forall>v \<in> set xs. v = Fin 0 \<Longrightarrow> foldl jmax (Fin 0) xs = Fin 0"
  by (induction xs) (simp_all add: jmax_def)

lemma short_backtest_flat:
  assumes "int (length data) < window" "j < length data"
    and "\<forall>b \<in> set data. price_in_range (close b)"
  shows "pnl (backtest data window en ex lg sd ! j) = Fin 0
       \<and> cumulativePnl (backtest data window en ex lg sd ! j) = Fin 0
       \<and> drawdown (backtest data window en ex lg sd ! j) = Fin 0
       \<and> trades (backtest data window en ex lg sd ! j) = Fin 0
       \<and> pos (backtest data window en ex lg sd ! j) = 0
       \<and> time (backtest data window en ex lg sd ! j) = time (data ! j)"
proof -
  let ?df = "generateSignals (map with_signal (calculateZScore data window)) en ex lg sd"
  let ?pn = "map (pnl_at ?df) [0..<length data]"
  let ?cum = "running_sum (Fin 0) ?pn"
  have pz: "\<forall>v \<in> set ?pn. v = Fin 0"
    using short_pnl[OF assms(1) _ assms(3)] by auto
  have cz: "?cum ! k = Fin 0" if "k < length data" for k
  proof -
    have "\<forall>v \<in> set (take (Suc k) ?pn). v = Fin 0" using pz by (meson in_set_takeD)
    thus ?thesis using that by (simp add: running_sum_nth foldl_jadd_zeros)
  qed
  have cz': "\<forall>v \<in> set ?cum. v = Fin 0"
  proof
    fix v assume "v \<in> set ?cum"
    then obtain k where "k < length ?cum" "v = ?cum ! k" by (metis in_set_conv_nth)
    thus "v = Fin 0" using cz by simp
  qed
  have "\<forall>v \<in> set (take (Suc j) ?cum). v = Fin 0" using cz' by (meson in_set_takeD)
  hence mz: "foldl jmax (Fin 0) (take (Suc j) ?cum) = Fin 0" by (rule foldl_jmax_zeros)
  have dz: "running_drawdown (Fin 0) ?cum ! j = Fin 0"
    using assms(2) by (simp add: running_drawdown_nth cz mz jsub_def)
  show ?thesis
    using assms(2) short_pnl[OF assms] short_trades[OF assms(1,2)] short_signals[OF assms(1,2)]
      cz[OF assms(2)] dz
    by (simp add: backtest_nth Let_def)
qed

lemma short_series_metrics:
  assumes "data \<noteq> []" "int (length data) < window"
    and "\<forall>b \<in> set data. price_in_range (close b)"
  shows "calculateAllMetrics (annualizer_of interval)
           (backtest data window entryThreshold exitThreshold logicType sd) window =
     (case timeClip (time (data ! 0)) of
        None \<Rightarrow> Inl RangeError
      | Some st \<Rightarrow>
          (case timeClip (time (last data)) of
             None \<Rightarrow> Inl RangeError
           | Some en \<Rightarrow>
               Inr (emptyMetrics\<lparr>Start_Date := date_label st, End_Date := date_label en,
                      Period_days := jfloor (jdiv (jsub (Fin (of_int en)) (Fin (of_int st)))
                                                  (Fin 86400000))\<rparr>)))"
proof -
  let ?out = "backtest data window entryThreshold exitThreshold logicType sd"
  have len: "0 < length data" using assms(1) by simp
  have ne: "?out \<noteq> []" using assms(1) by (metis length_backtest length_0_conv)
  have flat: "\<forall>b \<in> set ?out. pnl b = Fin 0 \<and> cumulativePnl b = Fin 0 \<and> drawdown b = Fin 0
                 \<and> trades b = Fin 0 \<and> pos b = 0"
  proof
    fix b assume "b \<in> set ?out"
    then obtain j where j: "j < length ?out" "b = ?out ! j" by (metis in_set_conv_nth)
    hence "j < length data" by simp
    thus "pnl b = Fin 0 \<and> cumulativePnl b = Fin 0 \<and> drawdown b = Fin 0
                 \<and> trades b = Fin 0 \<and> pos b = 0"
      using short_backtest_flat[OF assms(2) _ assms(3)] j(2) by blast
  qed
  have short: "int (length ?out) \<le> window" using assms(2) by simp
  have t0: "time (?out ! 0) = time (data ! 0)"
    using short_backtest_flat[OF assms(2) len assms(3)] by blast
  have l1: "length data - 1 < length data" using len by simp
  have t1: "time (?out ! (length ?out - 1)) = time (last data)"
    using short_backtest_flat[OF assms(2) l1 assms(3)] assms(1)
    by (simp add: last_conv_nth)
  show ?thesis
    using metrics_of_flat[OF ne flat short, of interval] by (simp only: t0 t1)
qed

lemmas date_eval = date_label_def toISOString_def iso_date_def iso_time_def iso_year_def
  civil_year_def civil_month_def civil_day_def yoe_of_def doy_of_def mp_of_def
  pad2_def pad3_def pad4_def pad6_def digit_def

lemma date_label_2022_01_01: "date_label 1640995200000 = ''2022-01-01 00:00:00''"
  by (simp add: date_eval)

lemma date_label_2022_01_02: "date_label 1641081600000 = ''2022-01-02 00:00:00''"
  by (simp add: date_eval)

lemma two_day_in_range: "\<forall>b \<in> set two_day_data. price_in_range (close b)"
  by (simp add: two_day_data_def price_in_range_def)

lemma two_day_period:
  "jfloor (jdiv (jsub (Fin 1641081600000) (Fin 1640995200000)) (Fin 86400000)) = Fin 1"
  by (simp add: jsub_def fl_eval)

lemma two_day_times:
  "timeClip (time (two_day_data ! 0)) = Some 1640995200000"
  "timeClip (time (last two_day_data)) = Some 1641081600000"
  by (simp_all add: two_day_data_def timeClip_def)

text \<open>
  C2, as the code has it. For a non-empty series shorter than the window, with prices of
  magnitude between \<open>2 powi -500\<close> and \<open>2 powi 500\<close>, the backtest followed by
  \<^verbatim>\<open>calculateAllMetrics\<close> returns Sharpe and Calmar \<open>NaN\<close> and every other numeric
  metric 0 except the period, but the start and end dates are the rendered timestamps of the
  first and last bar and the period is the whole number of days between them; it throws a
  \<^verbatim>\<open>RangeError\<close> when one of the two timestamps is not a valid date. The empty-metrics
  record itself is what the empty series gives.
\<close>

theorem short_series_metrics_record:
  assumes "data \<noteq> []" "int (length data) < window"
    and "\<forall>b \<in> set data. price_in_range (close b)"
  shows "calculateAllMetrics (annualizer_of interval)
           (backtest data window entryThreshold exitThreshold logicType sd) window =
     (case timeClip (time (data ! 0)) of
        None \<Rightarrow> Inl RangeError
      | Some st \<Rightarrow>
          (case timeClip (time (last data)) of
             None \<Rightarrow> Inl RangeError
           | Some en \<Rightarrow>
               Inr (emptyMetrics\<lparr>Start_Date := date_label st, End_Date := date_label en,
                      Period_days := jfloor (jdiv (jsub (Fin (of_int en)) (Fin (of_int st)))
                                                  (Fin 86400000))\<rparr>)))
     \<and> calculateAllMetrics (annualizer_of interval)
           (backtest [] window entryThreshold exitThreshold logicType sd) window
         = Inr emptyMetrics"
proof
  show "calculateAllMetrics (annualizer_of interval)
           (backtest data window entryThreshold exitThreshold logicType sd) window =
     (case timeClip (time (data ! 0)) of
        None \<Rightarrow> Inl RangeError
      | Some st \<Rightarrow>
          (case timeClip (time (last data)) of
             None \<Rightarrow> Inl RangeError
           | Some en \<Rightarrow>
               Inr (emptyMetrics\<lparr>Start_Date := date_label st, End_Date := date_label en,
                      Period_days := jfloor (jdiv (jsub (Fin (of_int en)) (Fin (of_int st)))
                                                  (Fin 86400000))\<rparr>)))"
    using assms by (rule short_series_metrics)
  show "calculateAllMetrics (annualizer_of interval)
           (backtest [] window entryThreshold exitThreshold logicType sd) window
         = Inr emptyMetrics"
    by (simp add: calculateAllMetrics_def backtest_def generateSignals_def calculateZScore_def)
qed

theorem short_series_metrics_record_witness:
  "two_day_data \<noteq> [] \<and> int (length two_day_data) < 3
   \<and> price_in_range (close (two_day_data ! 0)) \<and> price_in_range (close (two_day_data ! 1))
   \<and> calculateAllMetrics (annualizer_of ''1h'')
        (backtest two_day_data 3 (Fin 1) (Fin (- 1)) Trend Long) 3 = Inr two_day_metrics"
proof -
  have a: "two_day_data \<noteq> []" and b: "int (length two_day_data) < 3"
    by (simp_all add: two_day_data_def)
  from short_series_metrics_record[OF a b two_day_in_range, of "''1h''" "Fin 1" "Fin (- 1)" Trend Long]
  have "calculateAllMetrics (annualizer_of ''1h'')
        (backtest two_day_data 3 (Fin 1) (Fin (- 1)) Trend Long) 3 = Inr two_day_metrics"
    by (simp add: two_day_times two_day_period date_label_2022_01_01 date_label_2022_01_02
        two_day_metrics_def)
  moreover have "price_in_range (close (two_day_data ! 0))" "price_in_range (close (two_day_data ! 1))"
    by (simp_all add: two_day_data_def price_in_range_def)
  ultimately show ?thesis using a b by blast
qed

text \<open>
  C2 as stated fails: two bars a day apart with window 3 give the start date
  2022-01-01 00:00:00, the end date 2022-01-02 00:00:00 and a period of 1 day, not the
  empty-metrics record.
\<close>

theorem short_series_dates_not_NA:
  "calculateAllMetrics (annualizer_of ''1h'')
     (backtest two_day_data 3 (Fin 1) (Fin (- 1)) Trend Long) 3 = Inr two_day_metrics
   \<and> Start_Date two_day_metrics = ''2022-01-01 00:00:00''
   \<and> Period_days two_day_metrics = Fin 1
   \<and> Inr two_day_metrics \<noteq> (Inr emptyMetrics :: js_error + metrics)"
proof -
  have a: "two_day_data \<noteq> []" and b: "int (length two_day_data) < 3"
    by (simp_all add: two_day_data_def)
  from short_series_metrics[OF a b two_day_in_range, of "''1h''" "Fin 1" "Fin (- 1)" Trend Long]
  have "calculateAllMetrics (annualizer_of ''1h'')
        (backtest two_day_data 3 (Fin 1) (Fin (- 1)) Trend Long) 3 = Inr two_day_metrics"
    by (simp add: two_day_times two_day_period date_label_2022_01_01 date_label_2022_01_02
        two_day_metrics_def)
  thus ?thesis by (simp add: two_day_metrics_def emptyMetrics_def)
qed

end
